theory Spec2Isabelle
  imports Complex_Main "HOL-Library.Word"
begin

unbundle bit_operations_syntax

section \<open>Transaction types of blockchain/types/tx_internal_data.go\<close>

text \<open>
  \<^verbatim>\<open>type TxType uint16\<close>, \<^verbatim>\<open>type TxTypeMask uint8\<close>, \<^verbatim>\<open>type FeeRatio uint8\<close>.
  Gas amounts are \<^verbatim>\<open>uint64\<close>; fees are \<^verbatim>\<open>*big.Int\<close>, modelled as unbounded
  integers.
\<close>

type_synonym TxType = "16 word"
type_synonym TxTypeMask = "8 word"
type_synonym FeeRatio = "8 word"
type_synonym uint64 = "64 word"
type_synonym bytes = "8 word list"

definition SubTxTypeBits :: nat where
  "SubTxTypeBits = 3"

text \<open>
  The constant block declares three tags per line,
  \<^verbatim>\<open>iota << SubTxTypeBits, iota<<SubTxTypeBits + 1, iota<<SubTxTypeBits + 2\<close>;
  \<open>iota_tag i k\<close> is the tag in column \<open>k\<close> of line \<open>i\<close>.
\<close>

definition iota_tag :: "nat \<Rightarrow> nat \<Rightarrow> TxType" where
  "iota_tag i k = push_bit SubTxTypeBits (of_nat i) + of_nat k"

definition TxTypeLegacyTransaction :: TxType where
  "TxTypeLegacyTransaction = iota_tag 0 0"

definition TxTypeValueTransfer :: TxType where
  "TxTypeValueTransfer = iota_tag 1 0"

definition TxTypeFeeDelegatedValueTransfer :: TxType where
  "TxTypeFeeDelegatedValueTransfer = iota_tag 1 1"

definition TxTypeFeeDelegatedValueTransferWithRatio :: TxType where
  "TxTypeFeeDelegatedValueTransferWithRatio = iota_tag 1 2"

definition TxTypeValueTransferMemo :: TxType where
  "TxTypeValueTransferMemo = iota_tag 2 0"

definition TxTypeFeeDelegatedValueTransferMemo :: TxType where
  "TxTypeFeeDelegatedValueTransferMemo = iota_tag 2 1"

definition TxTypeFeeDelegatedValueTransferMemoWithRatio :: TxType where
  "TxTypeFeeDelegatedValueTransferMemoWithRatio = iota_tag 2 2"

definition TxTypeAccountCreation :: TxType where
  "TxTypeAccountCreation = iota_tag 3 0"

definition TxTypeAccountUpdate :: TxType where
  "TxTypeAccountUpdate = iota_tag 4 0"

definition TxTypeFeeDelegatedAccountUpdate :: TxType where
  "TxTypeFeeDelegatedAccountUpdate = iota_tag 4 1"

definition TxTypeFeeDelegatedAccountUpdateWithRatio :: TxType where
  "TxTypeFeeDelegatedAccountUpdateWithRatio = iota_tag 4 2"

definition TxTypeSmartContractDeploy :: TxType where
  "TxTypeSmartContractDeploy = iota_tag 5 0"

definition TxTypeFeeDelegatedSmartContractDeploy :: TxType where
  "TxTypeFeeDelegatedSmartContractDeploy = iota_tag 5 1"

definition TxTypeFeeDelegatedSmartContractDeployWithRatio :: TxType where
  "TxTypeFeeDelegatedSmartContractDeployWithRatio = iota_tag 5 2"

definition TxTypeSmartContractExecution :: TxType where
  "TxTypeSmartContractExecution = iota_tag 6 0"

definition TxTypeFeeDelegatedSmartContractExecution :: TxType where
  "TxTypeFeeDelegatedSmartContractExecution = iota_tag 6 1"

definition TxTypeFeeDelegatedSmartContractExecutionWithRatio :: TxType where
  "TxTypeFeeDelegatedSmartContractExecutionWithRatio = iota_tag 6 2"

definition TxTypeCancel :: TxType where
  "TxTypeCancel = iota_tag 7 0"

definition TxTypeFeeDelegatedCancel :: TxType where
  "TxTypeFeeDelegatedCancel = iota_tag 7 1"

definition TxTypeFeeDelegatedCancelWithRatio :: TxType where
  "TxTypeFeeDelegatedCancelWithRatio = iota_tag 7 2"

definition TxTypeBatch :: TxType where
  "TxTypeBatch = iota_tag 8 0"

definition TxTypeChainDataAnchoring :: TxType where
  "TxTypeChainDataAnchoring = iota_tag 9 0"

definition TxTypeFeeDelegatedChainDataAnchoring :: TxType where
  "TxTypeFeeDelegatedChainDataAnchoring = iota_tag 9 1"

definition TxTypeFeeDelegatedChainDataAnchoringWithRatio :: TxType where
  "TxTypeFeeDelegatedChainDataAnchoringWithRatio = iota_tag 9 2"

definition TxTypeKaiaLast :: TxType where
  "TxTypeKaiaLast = iota_tag 10 0"

definition TxTypeEthereumAccessList :: TxType where
  "TxTypeEthereumAccessList = 0x7801"

definition TxTypeEthereumDynamicFee :: TxType where
  "TxTypeEthereumDynamicFee = 0x7802"

definition TxTypeEthereumSetCode :: TxType where
  "TxTypeEthereumSetCode = 0x7804"

definition TxTypeEthereumLast :: TxType where
  "TxTypeEthereumLast = 0x7805"

definition EthereumTxTypeEnvelope :: TxType where
  "EthereumTxTypeEnvelope = 0x78"

definition TxFeeDelegationBitMask :: TxTypeMask where
  "TxFeeDelegationBitMask = 1"

definition TxFeeDelegationWithRatioBitMask :: TxTypeMask where
  "TxFeeDelegationWithRatioBitMask = 2"

lemmas TxType_defs =
  iota_tag_def SubTxTypeBits_def
  TxTypeLegacyTransaction_def TxTypeValueTransfer_def TxTypeFeeDelegatedValueTransfer_def
  TxTypeFeeDelegatedValueTransferWithRatio_def TxTypeValueTransferMemo_def
  TxTypeFeeDelegatedValueTransferMemo_def TxTypeFeeDelegatedValueTransferMemoWithRatio_def
  TxTypeAccountCreation_def TxTypeAccountUpdate_def TxTypeFeeDelegatedAccountUpdate_def
  TxTypeFeeDelegatedAccountUpdateWithRatio_def TxTypeSmartContractDeploy_def
  TxTypeFeeDelegatedSmartContractDeploy_def TxTypeFeeDelegatedSmartContractDeployWithRatio_def
  TxTypeSmartContractExecution_def TxTypeFeeDelegatedSmartContractExecution_def
  TxTypeFeeDelegatedSmartContractExecutionWithRatio_def TxTypeCancel_def
  TxTypeFeeDelegatedCancel_def TxTypeFeeDelegatedCancelWithRatio_def TxTypeBatch_def
  TxTypeChainDataAnchoring_def TxTypeFeeDelegatedChainDataAnchoring_def
  TxTypeFeeDelegatedChainDataAnchoringWithRatio_def TxTypeKaiaLast_def
  TxTypeEthereumAccessList_def TxTypeEthereumDynamicFee_def TxTypeEthereumSetCode_def
  TxTypeEthereumLast_def

subsection \<open>Classification predicates\<close>

definition IsLegacyTransaction :: "TxType \<Rightarrow> bool" where
  "IsLegacyTransaction t \<longleftrightarrow> t = TxTypeLegacyTransaction"

definition IsEthTypedTransaction :: "TxType \<Rightarrow> bool" where
  "IsEthTypedTransaction t \<longleftrightarrow> (t AND 0xff00) = push_bit 8 EthereumTxTypeEnvelope"

definition IsEthereumTransaction :: "TxType \<Rightarrow> bool" where
  "IsEthereumTransaction t \<longleftrightarrow> IsLegacyTransaction t \<or> IsEthTypedTransaction t"

text \<open>\<^verbatim>\<open>TxTypeMask(t)\<close> is the conversion of the 16-bit tag to \<^verbatim>\<open>uint8\<close>: its low byte.\<close>

definition IsFeeDelegatedTransaction :: "TxType \<Rightarrow> bool" where
  "IsFeeDelegatedTransaction t \<longleftrightarrow>
     ((ucast t :: TxTypeMask) AND (TxFeeDelegationBitMask OR TxFeeDelegationWithRatioBitMask)) \<noteq> 0
     \<and> \<not> IsEthereumTransaction t"

definition IsFeeDelegatedWithRatioTransaction :: "TxType \<Rightarrow> bool" where
  "IsFeeDelegatedWithRatioTransaction t \<longleftrightarrow>
     ((ucast t :: TxTypeMask) AND TxFeeDelegationWithRatioBitMask) \<noteq> 0
     \<and> \<not> IsEthereumTransaction t"

text \<open>\<^verbatim>\<open>FeeRatio.IsValid\<close>: the ratio is valid in [1,99].\<close>

definition IsValid :: "FeeRatio \<Rightarrow> bool" where
  "IsValid f \<longleftrightarrow> 1 \<le> f \<and> f \<le> 99"

section \<open>Fee splitting\<close>

text \<open>
  \<^verbatim>\<open>big.Int.Div\<close> of the Go standard library is Euclidean division: the remainder is
  never negative. It panics on a zero divisor; \<^verbatim>\<open>CalcFeeWithRatio\<close> only divides by
  \<^verbatim>\<open>common.Big100\<close>. The fee is a \<^verbatim>\<open>*big.Int\<close> that points to a number.
\<close>

definition big_Div :: "int \<Rightarrow> int \<Rightarrow> int" where
  "big_Div x y = (if 0 < y then x div y else - (x div (- y)))"

definition Big100 :: int where
  "Big100 = 100"

definition CalcFeeWithRatio :: "FeeRatio \<Rightarrow> int \<Rightarrow> int \<times> int" where
  "CalcFeeWithRatio feeRatio fee =
     (let feePayer = big_Div (fee * uint (ucast feeRatio :: uint64)) Big100;
          feeSender = fee - feePayer
      in (feePayer, feeSender))"

text \<open>Division truncating toward zero, the division of Go's machine integers.\<close>

definition quo_trunc :: "int \<Rightarrow> int \<Rightarrow> int" where
  "quo_trunc a b = (if (a < 0) = (b < 0) then \<bar>a\<bar> div \<bar>b\<bar> else - (\<bar>a\<bar> div \<bar>b\<bar>))"

section \<open>Intrinsic gas\<close>

definition MaxUint64 :: uint64 where
  "MaxUint64 = 0xFFFFFFFFFFFFFFFF"

definition toWordSize :: "uint64 \<Rightarrow> uint64" where
  "toWordSize sz =
     (if sz > MaxUint64 - 31 then MaxUint64 div 32 + 1
      else (sz + 31) div 32)"

text \<open>
  The flags of \<^verbatim>\<open>params.Rules\<close> that the intrinsic-gas functions read.
\<close>

record Rules =
  IsIstanbul :: bool
  IsShanghai :: bool
  IsPrague :: bool

text \<open>
  The gas constants of package \<^verbatim>\<open>params\<close> that tx_internal_data.go reads. They are
  typed \<^verbatim>\<open>uint64\<close> constants declared in params/protocol_params.go, a file that
  this development does not embed: the functions below take the table as a
  parameter \<open>p\<close>, and the theorems hold for every table.
\<close>

record params =
  TxGas :: uint64
  TxGasContractCreation :: uint64
  TxDataGas :: uint64
  TxDataZeroGas :: uint64
  TxDataNonZeroGasFrontier :: uint64
  TxDataNonZeroGasEIP2028 :: uint64
  InitCodeWordGas :: uint64
  TxAccessListAddressGas :: uint64
  TxAccessListStorageKeyGas :: uint64
  CallNewAccountGas :: uint64
  TxGasValueTransfer :: uint64
  TxGasAccountCreation :: uint64
  TxGasAccountUpdate :: uint64
  TxGasContractExecution :: uint64
  TxGasCancel :: uint64
  TxChainDataAnchoringGas :: uint64
  TxGasFeeDelegated :: uint64
  TxGasFeeDelegatedWithRatio :: uint64

text \<open>
  The per-byte and per-word prices are divisors in the overflow checks. Go rejects a
  division by a constant zero at compile time, so every table the program can be built
  with satisfies \<open>divisors_nonzero\<close>.
\<close>

definition divisors_nonzero :: "params \<Rightarrow> bool" where
  "divisors_nonzero p \<longleftrightarrow>
     0 < TxDataGas p \<and> 0 < TxDataZeroGas p \<and> 0 < TxDataNonZeroGasFrontier p
     \<and> 0 < TxDataNonZeroGasEIP2028 p \<and> 0 < InitCodeWordGas p"

text \<open>
  A table for evaluating the model at concrete inputs: the flat 100 gas per byte and
  the 68 gas per non-zero byte are the figures of the comments in
  \<^verbatim>\<open>IntrinsicGasPayload\<close> and \<^verbatim>\<open>IntrinsicGasPayloadLegacy\<close>; the other figures
  are those of the Ethereum gas schedule and of the Kaia fee-delegation surcharges.
\<close>

definition ref_params :: params where
  "ref_params = \<lparr>
     TxGas = 21000,
     TxGasContractCreation = 53000,
     TxDataGas = 100,
     TxDataZeroGas = 4,
     TxDataNonZeroGasFrontier = 68,
     TxDataNonZeroGasEIP2028 = 16,
     InitCodeWordGas = 2,
     TxAccessListAddressGas = 2400,
     TxAccessListStorageKeyGas = 1900,
     CallNewAccountGas = 25000,
     TxGasValueTransfer = 21000,
     TxGasAccountCreation = 21000,
     TxGasAccountUpdate = 21000,
     TxGasContractExecution = 21000,
     TxGasCancel = 21000,
     TxChainDataAnchoringGas = 21000,
     TxGasFeeDelegated = 10000,
     TxGasFeeDelegatedWithRatio = 15000 \<rparr>"

datatype error =
    ErrGasUintOverflow
  | errUndefinedTxType
  | Errorf string
  | ErrToMustBeEOAWithoutCode
  | ErrFromMustBeEOAWithoutCode
  | ErrToMustBeEOAWithCodeOrSCA

type_synonym Address = "160 word"
type_synonym Hash = "256 word"

record AccessTuple =
  Address :: Address
  StorageKeys :: "Hash list"

type_synonym AccessList = "AccessTuple list"

text \<open>
  Modelled from the spec: the method \<^verbatim>\<open>AccessList.StorageKeys()\<close> is declared in
  another file of package \<^verbatim>\<open>types\<close>; the access-list surcharge counts the storage
  keys of all entries, duplicates included.
\<close>

definition AccessList_StorageKeys :: "AccessList \<Rightarrow> nat" where
  "AccessList_StorageKeys al = sum_list (map (\<lambda>t. length (StorageKeys t)) al)"

text \<open>
  Of a \<^verbatim>\<open>SetCodeAuthorization\<close> only the number of entries is read here; the fields
  are those of an EIP-7702 authorization without its signature.
\<close>

record SetCodeAuthorization =
  auth_ChainID :: int
  auth_Address :: Address
  auth_Nonce :: uint64

text \<open>
  \<^verbatim>\<open>IntrinsicGasPayload\<close>. \<^verbatim>\<open>uint64(len(data))\<close> is \<open>of_nat (length data)\<close>;
  \<^verbatim>\<open>bytes.Count(data, []byte{0})\<close> is the number of zero bytes. A returned error is
  \<open>Inl\<close>; the \<^verbatim>\<open>0\<close> returned beside it is dropped.
\<close>

definition IntrinsicGasPayload :: "params \<Rightarrow> uint64 \<Rightarrow> bytes \<Rightarrow> bool \<Rightarrow> Rules \<Rightarrow> error + uint64" where
  "IntrinsicGasPayload p gas data isContractCreation rules =
     (let len = (of_nat (length data) :: uint64) in
      case (if len > 0 then
              (let z = (of_nat (count_list data 0) :: uint64);
                   nz = len - z;
                   nonZeroGas = (if IsPrague rules then TxDataNonZeroGasEIP2028 p else TxDataGas p);
                   zeroGas = (if IsPrague rules then TxDataZeroGas p else TxDataGas p)
               in if (MaxUint64 - gas) div nonZeroGas < nz then Inl ErrGasUintOverflow
                  else (let gas1 = gas + nz * nonZeroGas
                        in if (MaxUint64 - gas1) div zeroGas < z then Inl ErrGasUintOverflow
                           else Inr (gas1 + z * zeroGas)))
            else Inr gas) of
        Inl err \<Rightarrow> Inl err
      | Inr gas2 \<Rightarrow>
          if isContractCreation \<and> IsShanghai rules then
            (let lenWords = toWordSize len
             in if (MaxUint64 - gas2) div InitCodeWordGas p < lenWords then Inl ErrGasUintOverflow
                else Inr (gas2 + lenWords * InitCodeWordGas p))
          else Inr gas2)"

definition IntrinsicGasPayloadLegacy :: "params \<Rightarrow> uint64 \<Rightarrow> bytes \<Rightarrow> error + uint64" where
  "IntrinsicGasPayloadLegacy p gas data =
     (let len = (of_nat (length data) :: uint64) in
      if len > 0 then
        (let z = (of_nat (count_list data 0) :: uint64);
             nz = len - z
         in if (MaxUint64 - gas) div TxDataNonZeroGasFrontier p < nz then Inl ErrGasUintOverflow
            else (let gas1 = gas + nz * TxDataNonZeroGasFrontier p
                  in if (MaxUint64 - gas1) div TxDataZeroGas p < z then Inl ErrGasUintOverflow
                     else Inr (gas1 + z * TxDataZeroGas p)))
      else Inr gas)"

text \<open>
  \<^verbatim>\<open>IntrinsicGas\<close>. A nil list is \<open>None\<close>. The two list surcharges are added with
  plain \<^verbatim>\<open>uint64\<close> arithmetic, as in the source.
\<close>

definition IntrinsicGas ::
  "params \<Rightarrow> bytes \<Rightarrow> AccessList option \<Rightarrow> SetCodeAuthorization list option \<Rightarrow> bool \<Rightarrow> Rules
     \<Rightarrow> error + uint64" where
  "IntrinsicGas p data accessList authorizationList contractCreation r =
     (let gas = (if contractCreation then TxGasContractCreation p else TxGas p) in
      case (if IsIstanbul r then IntrinsicGasPayload p gas data contractCreation r
            else IntrinsicGasPayloadLegacy p gas data) of
        Inl err \<Rightarrow> Inl err
      | Inr gasPayloadWithGas \<Rightarrow>
          (let g1 = (case accessList of
                       None \<Rightarrow> gasPayloadWithGas
                     | Some al \<Rightarrow>
                         gasPayloadWithGas + of_nat (length al) * TxAccessListAddressGas p
                           + of_nat (AccessList_StorageKeys al) * TxAccessListStorageKeyGas p);
               g2 = (case authorizationList of
                       None \<Rightarrow> g1
                     | Some auths \<Rightarrow> g1 + of_nat (length auths) * CallNewAccountGas p)
           in Inr g2))"

text \<open>The costs as the specification words them, in unbounded arithmetic.\<close>

definition payload_cost :: "params \<Rightarrow> Rules \<Rightarrow> bytes \<Rightarrow> nat" where
  "payload_cost p r data =
     (let z = count_list data 0; nz = length data - z
      in if IsPrague r then nz * unat (TxDataNonZeroGasEIP2028 p) + z * unat (TxDataZeroGas p)
         else length data * unat (TxDataGas p))"

definition legacy_payload_cost :: "params \<Rightarrow> bytes \<Rightarrow> nat" where
  "legacy_payload_cost p data =
     (let z = count_list data 0; nz = length data - z
      in nz * unat (TxDataNonZeroGasFrontier p) + z * unat (TxDataZeroGas p))"

definition word_cost :: "params \<Rightarrow> Rules \<Rightarrow> bool \<Rightarrow> bytes \<Rightarrow> nat" where
  "word_cost p r isContractCreation data =
     (if isContractCreation \<and> IsShanghai r
      then ((length data + 31) div 32) * unat (InitCodeWordGas p) else 0)"

definition list_cost :: "params \<Rightarrow> AccessList option \<Rightarrow> SetCodeAuthorization list option \<Rightarrow> nat" where
  "list_cost p accessList authorizationList =
     (case accessList of
        None \<Rightarrow> 0
      | Some al \<Rightarrow> length al * unat (TxAccessListAddressGas p)
                   + AccessList_StorageKeys al * unat (TxAccessListStorageKeyGas p))
     + (case authorizationList of
          None \<Rightarrow> 0
        | Some auths \<Rightarrow> length auths * unat (CallNewAccountGas p))"

text \<open>The base cost, selected by whether the transaction creates a contract.\<close>

definition base_gas :: "params \<Rightarrow> bool \<Rightarrow> uint64" where
  "base_gas p contractCreation = (if contractCreation then TxGasContractCreation p else TxGas p)"

text \<open>
  Base cost plus payload cost plus word-size cost, in unbounded arithmetic: what the
  payload function selected by the Istanbul flag adds up.
\<close>

definition payload_total :: "params \<Rightarrow> Rules \<Rightarrow> bool \<Rightarrow> bytes \<Rightarrow> nat" where
  "payload_total p r contractCreation data =
     unat (base_gas p contractCreation)
     + (if IsIstanbul r then payload_cost p r data + word_cost p r contractCreation data
        else legacy_payload_cost p data)"

text \<open>Rule sets, an authorization and a payload for evaluating the model.\<close>

definition istanbul_rules :: Rules where
  "istanbul_rules = \<lparr> IsIstanbul = True, IsShanghai = False, IsPrague = False \<rparr>"

definition prague_rules :: Rules where
  "prague_rules = \<lparr> IsIstanbul = True, IsShanghai = True, IsPrague = True \<rparr>"

definition sample_auth :: SetCodeAuthorization where
  "sample_auth = \<lparr> auth_ChainID = 1, auth_Address = 1, auth_Nonce = 0 \<rparr>"

definition payload64 :: bytes where
  "payload64 = replicate 32 0 @ replicate 32 1"

section \<open>The variant registry\<close>

text \<open>The tags that the constant block of \<^verbatim>\<open>TxType\<close> declares by name, in its order.\<close>

definition declared_TxTypes :: "TxType list" where
  "declared_TxTypes =
     [TxTypeLegacyTransaction,
      TxTypeValueTransfer,
      TxTypeFeeDelegatedValueTransfer,
      TxTypeFeeDelegatedValueTransferWithRatio,
      TxTypeValueTransferMemo,
      TxTypeFeeDelegatedValueTransferMemo,
      TxTypeFeeDelegatedValueTransferMemoWithRatio,
      TxTypeAccountCreation,
      TxTypeAccountUpdate,
      TxTypeFeeDelegatedAccountUpdate,
      TxTypeFeeDelegatedAccountUpdateWithRatio,
      TxTypeSmartContractDeploy,
      TxTypeFeeDelegatedSmartContractDeploy,
      TxTypeFeeDelegatedSmartContractDeployWithRatio,
      TxTypeSmartContractExecution,
      TxTypeFeeDelegatedSmartContractExecution,
      TxTypeFeeDelegatedSmartContractExecutionWithRatio,
      TxTypeCancel,
      TxTypeFeeDelegatedCancel,
      TxTypeFeeDelegatedCancelWithRatio,
      TxTypeBatch,
      TxTypeChainDataAnchoring,
      TxTypeFeeDelegatedChainDataAnchoring,
      TxTypeFeeDelegatedChainDataAnchoringWithRatio,
      TxTypeKaiaLast,
      TxTypeEthereumAccessList,
      TxTypeEthereumDynamicFee,
      TxTypeEthereumSetCode,
      TxTypeEthereumLast]"

text \<open>
  One constructor per concrete transaction structure. \<^verbatim>\<open>NewTxInternalData\<close> returns
  the zero value of the structure, so the model keeps the shape and leaves its fields
  out. The structure of the account-creation family is built by the test-only helper
  \<^verbatim>\<open>NewAccountCreationTransactionWithMap\<close> alone.
\<close>

datatype TxInternalData =
    TxInternalDataLegacy
  | TxInternalDataValueTransfer
  | TxInternalDataFeeDelegatedValueTransfer
  | TxInternalDataFeeDelegatedValueTransferWithRatio
  | TxInternalDataValueTransferMemo
  | TxInternalDataFeeDelegatedValueTransferMemo
  | TxInternalDataFeeDelegatedValueTransferMemoWithRatio
  | TxInternalDataAccountCreation
  | TxInternalDataAccountUpdate
  | TxInternalDataFeeDelegatedAccountUpdate
  | TxInternalDataFeeDelegatedAccountUpdateWithRatio
  | TxInternalDataSmartContractDeploy
  | TxInternalDataFeeDelegatedSmartContractDeploy
  | TxInternalDataFeeDelegatedSmartContractDeployWithRatio
  | TxInternalDataSmartContractExecution
  | TxInternalDataFeeDelegatedSmartContractExecution
  | TxInternalDataFeeDelegatedSmartContractExecutionWithRatio
  | TxInternalDataCancel
  | TxInternalDataFeeDelegatedCancel
  | TxInternalDataFeeDelegatedCancelWithRatio
  | TxInternalDataChainDataAnchoring
  | TxInternalDataFeeDelegatedChainDataAnchoring
  | TxInternalDataFeeDelegatedChainDataAnchoringWithRatio
  | TxInternalDataEthereumAccessList
  | TxInternalDataEthereumDynamicFee
  | TxInternalDataEthereumSetCode

text \<open>
  Modelled from the spec: the \<^verbatim>\<open>Type()\<close> methods of the transaction structures are
  declared in the files of the single structures; each variant is one concrete shape
  per TransactionType and its type introspection reports that tag.
\<close>

fun txdata_Type :: "TxInternalData \<Rightarrow> TxType" where
  "txdata_Type TxInternalDataLegacy = TxTypeLegacyTransaction"
| "txdata_Type TxInternalDataValueTransfer = TxTypeValueTransfer"
| "txdata_Type TxInternalDataFeeDelegatedValueTransfer = TxTypeFeeDelegatedValueTransfer"
| "txdata_Type TxInternalDataFeeDelegatedValueTransferWithRatio = TxTypeFeeDelegatedValueTransferWithRatio"
| "txdata_Type TxInternalDataValueTransferMemo = TxTypeValueTransferMemo"
| "txdata_Type TxInternalDataFeeDelegatedValueTransferMemo = TxTypeFeeDelegatedValueTransferMemo"
| "txdata_Type TxInternalDataFeeDelegatedValueTransferMemoWithRatio = TxTypeFeeDelegatedValueTransferMemoWithRatio"
| "txdata_Type TxInternalDataAccountCreation = TxTypeAccountCreation"
| "txdata_Type TxInternalDataAccountUpdate = TxTypeAccountUpdate"
| "txdata_Type TxInternalDataFeeDelegatedAccountUpdate = TxTypeFeeDelegatedAccountUpdate"
| "txdata_Type TxInternalDataFeeDelegatedAccountUpdateWithRatio = TxTypeFeeDelegatedAccountUpdateWithRatio"
| "txdata_Type TxInternalDataSmartContractDeploy = TxTypeSmartContractDeploy"
| "txdata_Type TxInternalDataFeeDelegatedSmartContractDeploy = TxTypeFeeDelegatedSmartContractDeploy"
| "txdata_Type TxInternalDataFeeDelegatedSmartContractDeployWithRatio = TxTypeFeeDelegatedSmartContractDeployWithRatio"
| "txdata_Type TxInternalDataSmartContractExecution = TxTypeSmartContractExecution"
| "txdata_Type TxInternalDataFeeDelegatedSmartContractExecution = TxTypeFeeDelegatedSmartContractExecution"
| "txdata_Type TxInternalDataFeeDelegatedSmartContractExecutionWithRatio = TxTypeFeeDelegatedSmartContractExecutionWithRatio"
| "txdata_Type TxInternalDataCancel = TxTypeCancel"
| "txdata_Type TxInternalDataFeeDelegatedCancel = TxTypeFeeDelegatedCancel"
| "txdata_Type TxInternalDataFeeDelegatedCancelWithRatio = TxTypeFeeDelegatedCancelWithRatio"
| "txdata_Type TxInternalDataChainDataAnchoring = TxTypeChainDataAnchoring"
| "txdata_Type TxInternalDataFeeDelegatedChainDataAnchoring = TxTypeFeeDelegatedChainDataAnchoring"
| "txdata_Type TxInternalDataFeeDelegatedChainDataAnchoringWithRatio = TxTypeFeeDelegatedChainDataAnchoringWithRatio"
| "txdata_Type TxInternalDataEthereumAccessList = TxTypeEthereumAccessList"
| "txdata_Type TxInternalDataEthereumDynamicFee = TxTypeEthereumDynamicFee"
| "txdata_Type TxInternalDataEthereumSetCode = TxTypeEthereumSetCode"

text \<open>\<^verbatim>\<open>NewTxInternalData\<close>: the cases of the switch, in the order of the source.\<close>

definition NewTxInternalData :: "TxType \<Rightarrow> error + TxInternalData" where
  "NewTxInternalData t =
     (if t = TxTypeLegacyTransaction then Inr TxInternalDataLegacy
      else if t = TxTypeValueTransfer then Inr TxInternalDataValueTransfer
      else if t = TxTypeFeeDelegatedValueTransfer then Inr TxInternalDataFeeDelegatedValueTransfer
      else if t = TxTypeFeeDelegatedValueTransferWithRatio then Inr TxInternalDataFeeDelegatedValueTransferWithRatio
      else if t = TxTypeValueTransferMemo then Inr TxInternalDataValueTransferMemo
      else if t = TxTypeFeeDelegatedValueTransferMemo then Inr TxInternalDataFeeDelegatedValueTransferMemo
      else if t = TxTypeFeeDelegatedValueTransferMemoWithRatio then Inr TxInternalDataFeeDelegatedValueTransferMemoWithRatio
      else if t = TxTypeAccountUpdate then Inr TxInternalDataAccountUpdate
      else if t = TxTypeFeeDelegatedAccountUpdate then Inr TxInternalDataFeeDelegatedAccountUpdate
      else if t = TxTypeFeeDelegatedAccountUpdateWithRatio then Inr TxInternalDataFeeDelegatedAccountUpdateWithRatio
      else if t = TxTypeSmartContractDeploy then Inr TxInternalDataSmartContractDeploy
      else if t = TxTypeFeeDelegatedSmartContractDeploy then Inr TxInternalDataFeeDelegatedSmartContractDeploy
      else if t = TxTypeFeeDelegatedSmartContractDeployWithRatio then Inr TxInternalDataFeeDelegatedSmartContractDeployWithRatio
      else if t = TxTypeSmartContractExecution then Inr TxInternalDataSmartContractExecution
      else if t = TxTypeFeeDelegatedSmartContractExecution then Inr TxInternalDataFeeDelegatedSmartContractExecution
      else if t = TxTypeFeeDelegatedSmartContractExecutionWithRatio then Inr TxInternalDataFeeDelegatedSmartContractExecutionWithRatio
      else if t = TxTypeCancel then Inr TxInternalDataCancel
      else if t = TxTypeFeeDelegatedCancel then Inr TxInternalDataFeeDelegatedCancel
      else if t = TxTypeFeeDelegatedCancelWithRatio then Inr TxInternalDataFeeDelegatedCancelWithRatio
      else if t = TxTypeChainDataAnchoring then Inr TxInternalDataChainDataAnchoring
      else if t = TxTypeFeeDelegatedChainDataAnchoring then Inr TxInternalDataFeeDelegatedChainDataAnchoring
      else if t = TxTypeFeeDelegatedChainDataAnchoringWithRatio then Inr TxInternalDataFeeDelegatedChainDataAnchoringWithRatio
      else if t = TxTypeEthereumAccessList then Inr TxInternalDataEthereumAccessList
      else if t = TxTypeEthereumDynamicFee then Inr TxInternalDataEthereumDynamicFee
      else if t = TxTypeEthereumSetCode then Inr TxInternalDataEthereumSetCode
      else Inl errUndefinedTxType)"

section \<open>The static gas table\<close>

text \<open>\<^verbatim>\<open>TxType.String()\<close>, as far as the error message of the lookup needs it.\<close>

definition TxType_String :: "TxType \<Rightarrow> string" where
  "TxType_String t =
     (if t = TxTypeLegacyTransaction then ''TxTypeLegacyTransaction''
      else if t = TxTypeValueTransfer then ''TxTypeValueTransfer''
      else if t = TxTypeFeeDelegatedValueTransfer then ''TxTypeFeeDelegatedValueTransfer''
      else if t = TxTypeFeeDelegatedValueTransferWithRatio then ''TxTypeFeeDelegatedValueTransferWithRatio''
      else if t = TxTypeValueTransferMemo then ''TxTypeValueTransferMemo''
      else if t = TxTypeFeeDelegatedValueTransferMemo then ''TxTypeFeeDelegatedValueTransferMemo''
      else if t = TxTypeFeeDelegatedValueTransferMemoWithRatio then ''TxTypeFeeDelegatedValueTransferMemoWithRatio''
      else if t = TxTypeAccountCreation then ''TxTypeAccountCreation''
      else if t = TxTypeAccountUpdate then ''TxTypeAccountUpdate''
      else if t = TxTypeFeeDelegatedAccountUpdate then ''TxTypeFeeDelegatedAccountUpdate''
      else if t = TxTypeFeeDelegatedAccountUpdateWithRatio then ''TxTypeFeeDelegatedAccountUpdateWithRatio''
      else if t = TxTypeSmartContractDeploy then ''TxTypeSmartContractDeploy''
      else if t = TxTypeFeeDelegatedSmartContractDeploy then ''TxTypeFeeDelegatedSmartContractDeploy''
      else if t = TxTypeFeeDelegatedSmartContractDeployWithRatio then ''TxTypeFeeDelegatedSmartContractDeployWithRatio''
      else if t = TxTypeSmartContractExecution then ''TxTypeSmartContractExecution''
      else if t = TxTypeFeeDelegatedSmartContractExecution then ''TxTypeFeeDelegatedSmartContractExecution''
      else if t = TxTypeFeeDelegatedSmartContractExecutionWithRatio then ''TxTypeFeeDelegatedSmartContractExecutionWithRatio''
      else if t = TxTypeCancel then ''TxTypeCancel''
      else if t = TxTypeFeeDelegatedCancel then ''TxTypeFeeDelegatedCancel''
      else if t = TxTypeFeeDelegatedCancelWithRatio then ''TxTypeFeeDelegatedCancelWithRatio''
      else if t = TxTypeBatch then ''TxTypeBatch''
      else if t = TxTypeChainDataAnchoring then ''TxTypeChainDataAnchoring''
      else if t = TxTypeFeeDelegatedChainDataAnchoring then ''TxTypeFeeDelegatedChainDataAnchoring''
      else if t = TxTypeFeeDelegatedChainDataAnchoringWithRatio then ''TxTypeFeeDelegatedChainDataAnchoringWithRatio''
      else if t = TxTypeEthereumAccessList then ''TxTypeEthereumAccessList''
      else if t = TxTypeEthereumDynamicFee then ''TxTypeEthereumDynamicFee''
      else if t = TxTypeEthereumSetCode then ''TxTypeEthereumSetCode''
      else ''UndefinedTxType'')"

text \<open>
  \<^verbatim>\<open>txTypeToGasMap\<close> is a map literal; its entries are listed in the order of the
  source. The sums are sums of \<^verbatim>\<open>uint64\<close> constants.
\<close>

definition txTypeToGasMap :: "params \<Rightarrow> (TxType \<times> uint64) list" where
  "txTypeToGasMap p =
     [(TxTypeLegacyTransaction, TxGas p),
      (TxTypeValueTransfer, TxGasValueTransfer p),
      (TxTypeFeeDelegatedValueTransfer, TxGasValueTransfer p + TxGasFeeDelegated p),
      (TxTypeFeeDelegatedValueTransferWithRatio, TxGasValueTransfer p + TxGasFeeDelegatedWithRatio p),
      (TxTypeValueTransferMemo, TxGasValueTransfer p),
      (TxTypeFeeDelegatedValueTransferMemo, TxGasValueTransfer p + TxGasFeeDelegated p),
      (TxTypeFeeDelegatedValueTransferMemoWithRatio, TxGasValueTransfer p + TxGasFeeDelegatedWithRatio p),
      (TxTypeAccountCreation, TxGasAccountCreation p),
      (TxTypeAccountUpdate, TxGasAccountUpdate p),
      (TxTypeFeeDelegatedAccountUpdate, TxGasAccountUpdate p + TxGasFeeDelegated p),
      (TxTypeFeeDelegatedAccountUpdateWithRatio, TxGasAccountUpdate p + TxGasFeeDelegatedWithRatio p),
      (TxTypeSmartContractDeploy, TxGasContractCreation p),
      (TxTypeFeeDelegatedSmartContractDeploy, TxGasContractCreation p + TxGasFeeDelegated p),
      (TxTypeFeeDelegatedSmartContractDeployWithRatio, TxGasContractCreation p + TxGasFeeDelegatedWithRatio p),
      (TxTypeSmartContractExecution, TxGasContractExecution p),
      (TxTypeFeeDelegatedSmartContractExecution, TxGasContractExecution p + TxGasFeeDelegated p),
      (TxTypeFeeDelegatedSmartContractExecutionWithRatio, TxGasContractExecution p + TxGasFeeDelegatedWithRatio p),
      (TxTypeCancel, TxGasCancel p),
      (TxTypeFeeDelegatedCancel, TxGasCancel p + TxGasFeeDelegated p),
      (TxTypeFeeDelegatedCancelWithRatio, TxGasCancel p + TxGasFeeDelegatedWithRatio p),
      (TxTypeChainDataAnchoring, TxChainDataAnchoringGas p),
      (TxTypeFeeDelegatedChainDataAnchoring, TxChainDataAnchoringGas p + TxGasFeeDelegated p),
      (TxTypeFeeDelegatedChainDataAnchoringWithRatio, TxChainDataAnchoringGas p + TxGasFeeDelegatedWithRatio p),
      (TxTypeEthereumAccessList, TxGas p),
      (TxTypeEthereumDynamicFee, TxGas p),
      (TxTypeEthereumSetCode, TxGas p)]"

text \<open>\<^verbatim>\<open>fmt.Errorf("cannot find txGas for txType %s", txType.String())\<close> is \<open>Errorf\<close> of the text.\<close>

definition GetTxGasForTxType :: "params \<Rightarrow> TxType \<Rightarrow> error + uint64" where
  "GetTxGasForTxType p txType =
     (case map_of (txTypeToGasMap p) txType of
        Some gas \<Rightarrow> Inr gas
      | None \<Rightarrow> Inl (Errorf (''cannot find txGas for txType '' @ TxType_String txType)))"

section \<open>The delegation validator\<close>

text \<open>
  Modelled from the spec: package \<^verbatim>\<open>account\<close> is a package of its own. The
  account-state reader of the specification names a plain (externally owned) account,
  which carries a code hash, and a contract account. The validator also provides for
  an account that is neither, one whose \<^verbatim>\<open>Type()\<close> is not
  \<^verbatim>\<open>SmartContractAccountType\<close> and for which the type assertion fails: the legacy
  account of package \<^verbatim>\<open>account\<close>, which carries a code hash too.
  \<open>account_Type\<close> is the method \<^verbatim>\<open>Type()\<close> and \<open>as_EOA\<close> is the type assertion
  \<^verbatim>\<open>acc.(*account.ExternallyOwnedAccount)\<close>, \<open>None\<close> when it does not hold.
\<close>

datatype AccountType = LegacyAccountType | ExternallyOwnedAccountType | SmartContractAccountType

datatype Account =
    LegacyAccount (legacy_CodeHash: bytes)
  | ExternallyOwnedAccount (GetCodeHash: bytes)
  | SmartContractAccount

fun account_Type :: "Account \<Rightarrow> AccountType" where
  "account_Type (LegacyAccount h) = LegacyAccountType"
| "account_Type (ExternallyOwnedAccount h) = ExternallyOwnedAccountType"
| "account_Type SmartContractAccount = SmartContractAccountType"

fun as_EOA :: "Account \<Rightarrow> Account option" where
  "as_EOA (ExternallyOwnedAccount h) = Some (ExternallyOwnedAccount h)"
| "as_EOA (LegacyAccount h) = None"
| "as_EOA SmartContractAccount = None"

text \<open>
  \<^verbatim>\<open>emptyCodeHash = crypto.Keccak256(nil)\<close>: the 32 bytes of the Keccak-256 digest of
  the empty input.
\<close>

definition emptyCodeHash :: bytes where
  "emptyCodeHash =
     [0xc5, 0xd2, 0x46, 0x01, 0x86, 0xf7, 0x23, 0x3c, 0x92, 0x7e, 0x7d, 0xb2, 0xdc, 0xc7, 0x03, 0xc0,
      0xe5, 0x00, 0xb6, 0x53, 0xca, 0x82, 0x27, 0x3b, 0x7b, 0xfa, 0xd8, 0x04, 0x5d, 0x85, 0xa4, 0x70]"

text \<open>
  The state behind the interface \<^verbatim>\<open>StateDB\<close>, as far as the validator reaches it: the
  account stored at each address, none (nil) for an address without account. The
  methods of the interface take the state and return it with their answer.
\<close>

record StateDB =
  accounts :: "Address \<Rightarrow> Account option"

text \<open>
  Modelled from the spec: the implementation of \<^verbatim>\<open>GetAccount\<close> lies behind the
  interface; it is a read-only account-shape query, which answers with the account
  stored at the address and leaves the state as it is.
\<close>

definition GetAccount :: "StateDB \<Rightarrow> Address \<Rightarrow> Account option \<times> StateDB" where
  "GetAccount stateDB addr = (accounts stateDB addr, stateDB)"

text \<open>
  \<^verbatim>\<open>validate7702\<close>; a nil error is \<open>None\<close>. The result is the error together with the
  state after the calls that the validator has made.
\<close>

definition validate7702 ::
  "StateDB \<Rightarrow> TxType \<Rightarrow> Address \<Rightarrow> Address \<Rightarrow> error option \<times> StateDB" where
  "validate7702 stateDB txType fromAddr toAddr =
     (if txType = TxTypeValueTransfer \<or> txType = TxTypeFeeDelegatedValueTransfer
         \<or> txType = TxTypeFeeDelegatedValueTransferWithRatio \<or> txType = TxTypeValueTransferMemo
         \<or> txType = TxTypeFeeDelegatedValueTransferMemo
         \<or> txType = TxTypeFeeDelegatedValueTransferMemoWithRatio then
        (case GetAccount stateDB toAddr of
           (None, stateDB') \<Rightarrow> (None, stateDB')
         | (Some acc, stateDB') \<Rightarrow>
             (if account_Type acc = SmartContractAccountType then Some ErrToMustBeEOAWithoutCode
              else (case as_EOA acc of
                      None \<Rightarrow> Some ErrToMustBeEOAWithoutCode
                    | Some eoa \<Rightarrow>
                        if GetCodeHash eoa \<noteq> emptyCodeHash then Some ErrToMustBeEOAWithoutCode
                        else None),
              stateDB'))
      else if txType = TxTypeAccountUpdate \<or> txType = TxTypeFeeDelegatedAccountUpdate
         \<or> txType = TxTypeFeeDelegatedAccountUpdateWithRatio then
        (case GetAccount stateDB fromAddr of
           (None, stateDB') \<Rightarrow> (None, stateDB')
         | (Some acc, stateDB') \<Rightarrow>
             (if account_Type acc = SmartContractAccountType then Some ErrFromMustBeEOAWithoutCode
              else (case as_EOA acc of
                      None \<Rightarrow> Some ErrFromMustBeEOAWithoutCode
                    | Some eoa \<Rightarrow>
                        if GetCodeHash eoa \<noteq> emptyCodeHash then Some ErrFromMustBeEOAWithoutCode
                        else None),
              stateDB'))
      else if txType = TxTypeSmartContractExecution
         \<or> txType = TxTypeFeeDelegatedSmartContractExecution
         \<or> txType = TxTypeFeeDelegatedSmartContractExecutionWithRatio then
        (case GetAccount stateDB toAddr of
           (None, stateDB') \<Rightarrow> (Some ErrToMustBeEOAWithCodeOrSCA, stateDB')
         | (Some acc, stateDB') \<Rightarrow>
             (if account_Type acc = SmartContractAccountType then None
              else (case as_EOA acc of
                      None \<Rightarrow> None
                    | Some eoa \<Rightarrow>
                        if GetCodeHash eoa \<noteq> emptyCodeHash then None
                        else Some ErrToMustBeEOAWithCodeOrSCA),
              stateDB'))
      else (None, stateDB))"

text \<open>
  A state with a contract account, a codeless account, an account with code and a
  codeless legacy account.
\<close>

definition sample_stateDB :: StateDB where
  "sample_stateDB = \<lparr> accounts = (\<lambda>a.
       if a = 1 then Some SmartContractAccount
       else if a = 2 then Some (ExternallyOwnedAccount emptyCodeHash)
       else if a = 3 then Some (ExternallyOwnedAccount [0xef, 0x01, 0x00])
       else if a = 5 then Some (LegacyAccount emptyCodeHash)
       else None) \<rparr>"

section \<open>Properties\<close>

lemma MaxUint64_unat: "unat MaxUint64 = 2 ^ 64 - 1"
  by (simp add: MaxUint64_def)

lemma toWordSize_unat: "unat (toWordSize n) = (unat n + 31) div 32"
proof (cases "n > MaxUint64 - 31")
  case True
  then have lo: "2 ^ 64 - 32 < unat n"
    by (simp add: word_less_nat_alt MaxUint64_def)
  have hi: "unat n < 2 ^ 64"
    using unsigned_less [of n] by simp
  from lo hi have "(unat n + 31) div 32 = 576460752303423488"
    by simp
  moreover have "unat (MaxUint64 div 32 + 1) = 576460752303423488"
    by (simp add: MaxUint64_def)
  ultimately show ?thesis
    using True by (simp add: toWordSize_def)
next
  case False
  then have le: "unat n \<le> 2 ^ 64 - 32"
    by (simp add: word_less_nat_alt MaxUint64_def)
  then have "unat (n + 31) = unat n + 31"
    by (simp add: unat_word_ariths)
  then show ?thesis
    using False by (simp add: toWordSize_def unat_div)
qed


subsection \<open>Fee splitting\<close>

lemma big_Div_100: "big_Div x Big100 = x div 100"
  by (simp add: big_Div_def Big100_def)

lemma CalcFeeWithRatio_eq:
  "CalcFeeWithRatio r fee = (fee * uint r div 100, fee - fee * uint r div 100)"
  by (simp add: CalcFeeWithRatio_def big_Div_100 Let_def uint_up_ucast is_up)

lemma floor100: "\<lfloor>real_of_int x / 100\<rfloor> = x div 100"
  using floor_divide_of_int_eq [of x 100, where ?'a = real] by simp

text \<open>
  C1. For a ratio in [1,99] and a non-negative fee, the payer's share is the floor of
  fee * ratio / 100, which is also the quotient truncated toward zero; the sender's
  share is the rest, and the two shares add up to the fee.
\<close>

theorem CalcFeeWithRatio_valid:
  assumes "IsValid r" and "0 \<le> fee"
  shows "case CalcFeeWithRatio r fee of (payerShare, senderShare) \<Rightarrow>
           payerShare = \<lfloor>real_of_int (fee * uint r) / 100\<rfloor>
         \<and> payerShare = quo_trunc (fee * uint r) 100
         \<and> senderShare = fee - payerShare
         \<and> payerShare + senderShare = fee"
proof -
  have "0 \<le> fee * uint r"
    using assms(2) by simp
  then have qt: "quo_trunc (fee * uint r) 100 = fee * uint r div 100"
    by (simp add: quo_trunc_def)
  have fl: "\<lfloor>real_of_int (fee * uint r) / 100\<rfloor> = fee * uint r div 100"
    by (rule floor100)
  show ?thesis
    unfolding CalcFeeWithRatio_eq fl qt by simp
qed

theorem CalcFeeWithRatio_valid_witness:
  "IsValid 30 \<and> (0::int) \<le> 1001 \<and> CalcFeeWithRatio 30 1001 = (300, 701)"
  using CalcFeeWithRatio_valid [of 30 1001] by (simp add: IsValid_def CalcFeeWithRatio_eq)

text \<open>
  C10, as stated, fails: with ratio 101 and fee 1 the payer's share is 1, which does not
  exceed the fee, and the sender's share is 0, which is not negative.
\<close>

theorem CalcFeeWithRatio_above_100_counterexample:
  "(100::FeeRatio) < 101 \<and> CalcFeeWithRatio 101 1 = (1, 0)
   \<and> \<not> (1 < fst (CalcFeeWithRatio 101 1)) \<and> \<not> (snd (CalcFeeWithRatio 101 1) < 0)"
  by (simp add: CalcFeeWithRatio_eq)

text \<open>
  C10, amended. \<^verbatim>\<open>CalcFeeWithRatio\<close> checks no range: for every 8-bit ratio and every
  fee the payer's share is the floor of fee * ratio / 100, the sender's share is the
  rest, and the shares add up to the fee; ratio 0 gives (0, fee), ratio 100 gives
  (fee, 0); for a ratio above 100 the payer's share exceeds the fee, and the sender's
  share is negative, exactly when fee * (ratio - 100) is at least 100.
\<close>

theorem CalcFeeWithRatio_total:
  "case CalcFeeWithRatio r fee of (payerShare, senderShare) \<Rightarrow>
      payerShare = \<lfloor>real_of_int (fee * uint r) / 100\<rfloor>
    \<and> senderShare = fee - payerShare
    \<and> payerShare + senderShare = fee
    \<and> (r = 0 \<longrightarrow> payerShare = 0 \<and> senderShare = fee)
    \<and> (r = 100 \<longrightarrow> payerShare = fee \<and> senderShare = 0)
    \<and> (100 < r \<longrightarrow> (fee < payerShare \<longleftrightarrow> 100 \<le> fee * (uint r - 100))
                   \<and> (senderShare < 0 \<longleftrightarrow> 100 \<le> fee * (uint r - 100)))"
proof -
  define x where "x = fee * uint r"
  have eq: "CalcFeeWithRatio r fee = (x div 100, fee - x div 100)"
    by (simp add: CalcFeeWithRatio_eq x_def)
  have fl: "\<lfloor>real_of_int (fee * uint r) / 100\<rfloor> = x div 100"
    by (simp only: floor100 x_def)
  have z: "r = 0 \<Longrightarrow> x = 0"
    by (simp add: x_def)
  have h: "r = 100 \<Longrightarrow> x = 100 * fee"
    by (simp add: x_def)
  have big: "fee * (uint r - 100) = x - 100 * fee"
    by (simp add: x_def algebra_simps)
  have strict: "fee < x div 100 \<longleftrightarrow> 100 \<le> x - 100 * fee"
  proof -
    define q m where "q = x div 100" and "m = x mod 100"
    have "x = 100 * q + m" and "0 \<le> m" and "m < 100"
      by (simp_all add: q_def m_def)
    then show ?thesis
      unfolding q_def [symmetric] by arith
  qed
  show ?thesis
    unfolding eq fl big using z h strict by auto
qed

theorem CalcFeeWithRatio_total_witness:
  "CalcFeeWithRatio 0 1000 = (0, 1000) \<and> CalcFeeWithRatio 100 1000 = (1000, 0)
   \<and> (100::FeeRatio) < 150 \<and> CalcFeeWithRatio 150 1000 = (1500, - 500)
   \<and> (100::int) \<le> 1000 * (uint (150::FeeRatio) - 100)"
  using CalcFeeWithRatio_total [of 0 1000] CalcFeeWithRatio_total [of 100 1000]
    CalcFeeWithRatio_total [of 150 1000]
  by (simp add: CalcFeeWithRatio_eq)

subsection \<open>Classification of tags\<close>

lemma delegation_bits_zero: "(ucast (t::16 word) :: 8 word) AND (1 OR 2) = 0 \<longleftrightarrow> \<not> bit t 0 \<and> \<not> bit t 1"
proof -
  have m: "(1 OR 2 :: 8 word) = mask 2"
    by (simp add: mask_eq_exp_minus_1)
  have "(ucast t :: 8 word) AND mask 2 = 0 \<longleftrightarrow> (\<forall>n<2. \<not> bit t n)"
  proof -
    have "(ucast t :: 8 word) AND mask 2 = 0 \<longleftrightarrow> (\<forall>n. \<not> (n < 8 \<and> bit t n \<and> n < 2))"
      by (simp add: bit_eq_iff bit_and_iff bit_ucast_iff bit_mask_iff) blast
    also have "\<dots> \<longleftrightarrow> (\<forall>n<2. \<not> bit t n)"
    proof -
      have "n < 8" if "n < 2" for n :: nat
        using that by simp
      then show ?thesis
        by blast
    qed
    finally show ?thesis .
  qed
  also have "\<dots> \<longleftrightarrow> \<not> bit t 0 \<and> \<not> bit t 1"
    by (auto simp add: less_2_cases_iff)
  finally show ?thesis
    by (simp only: m)
qed

lemma high_byte_mask: "(t :: 16 word) AND 0xff00 = push_bit 8 (drop_bit 8 t)"
proof -
  have m: "(0xff00 :: 16 word) = NOT (mask 8)"
    by (simp add: mask_eq_exp_minus_1)
  show ?thesis
    unfolding m
    by (rule bit_word_eqI) (auto simp add: bit_simps)
qed

lemma IsEthTypedTransaction_high_byte: "IsEthTypedTransaction t \<longleftrightarrow> drop_bit 8 t = EthereumTxTypeEnvelope"
proof -
  have "push_bit 8 (drop_bit 8 t) = push_bit 8 (0x78 :: 16 word) \<longleftrightarrow> drop_bit 8 t = 0x78"
  proof
    assume "push_bit 8 (drop_bit 8 t) = push_bit 8 (0x78 :: 16 word)"
    then have "drop_bit 8 (push_bit 8 (drop_bit 8 t)) = drop_bit 8 (push_bit 8 (0x78 :: 16 word))"
      by simp
    moreover have "drop_bit 8 (push_bit 8 (drop_bit 8 t)) = drop_bit 8 t"
      by (rule bit_word_eqI) (auto simp add: bit_simps dest: bit_imp_le_length)
    ultimately show "drop_bit 8 t = 0x78"
      by (simp add: drop_bit_eq_div push_bit_eq_mult)
  qed simp
  then show ?thesis
    by (simp only: IsEthTypedTransaction_def EthereumTxTypeEnvelope_def high_byte_mask)
qed

lemma delegation_bit_masks:
  fixes t :: TxType
  shows "(ucast t :: TxTypeMask) AND TxFeeDelegationBitMask \<noteq> 0 \<longleftrightarrow> bit t 0"
    and "(ucast t :: TxTypeMask) AND TxFeeDelegationWithRatioBitMask \<noteq> 0 \<longleftrightarrow> bit t 1"
proof -
  have "(ucast t :: TxTypeMask) AND 1 = 0 \<longleftrightarrow> \<not> bit t 0"
    using and_exp_eq_0_iff_not_bit [of "ucast t :: TxTypeMask" 0]
    by (simp add: bit_ucast_iff)
  then show "(ucast t :: TxTypeMask) AND TxFeeDelegationBitMask \<noteq> 0 \<longleftrightarrow> bit t 0"
    by (simp add: TxFeeDelegationBitMask_def)
  have "(ucast t :: TxTypeMask) AND 2 = 0 \<longleftrightarrow> \<not> bit t 1"
    using and_exp_eq_0_iff_not_bit [of "ucast t :: TxTypeMask" 1]
    by (simp add: bit_ucast_iff)
  then show "(ucast t :: TxTypeMask) AND TxFeeDelegationWithRatioBitMask \<noteq> 0 \<longleftrightarrow> bit t 1"
    by (simp add: TxFeeDelegationWithRatioBitMask_def)
qed

text \<open>
  C5, as stated, fails: the tag 0x000B has both delegation bits set and is neither the
  legacy tag nor an Ethereum-typed tag, and \<^verbatim>\<open>IsFeeDelegatedTransaction\<close> is true of it.
\<close>

theorem IsFeeDelegatedTransaction_both_bits_counterexample:
  "IsFeeDelegatedTransaction 0x000B
   \<and> (ucast (0x000B :: TxType) :: TxTypeMask) AND TxFeeDelegationBitMask \<noteq> 0
   \<and> (ucast (0x000B :: TxType) :: TxTypeMask) AND TxFeeDelegationWithRatioBitMask \<noteq> 0
   \<and> \<not> IsEthTypedTransaction 0x000B"
  by (simp add: IsFeeDelegatedTransaction_def IsEthereumTransaction_def IsLegacyTransaction_def
      IsEthTypedTransaction_def EthereumTxTypeEnvelope_def TxFeeDelegationBitMask_def
      TxFeeDelegationWithRatioBitMask_def TxType_defs)

text \<open>
  C5, amended. \<^verbatim>\<open>IsFeeDelegatedTransaction\<close> is true if and only if at least one of
  the two delegation bits is set and the tag is not Ethereum-typed; for every tag whose
  high byte is the envelope marker 0x78 it is false.
\<close>

theorem IsFeeDelegatedTransaction_iff:
  "(IsFeeDelegatedTransaction t \<longleftrightarrow>
      ((ucast t :: TxTypeMask) AND TxFeeDelegationBitMask \<noteq> 0
        \<or> (ucast t :: TxTypeMask) AND TxFeeDelegationWithRatioBitMask \<noteq> 0)
      \<and> \<not> IsEthTypedTransaction t)
   \<and> (drop_bit 8 t = EthereumTxTypeEnvelope \<longrightarrow> \<not> IsFeeDelegatedTransaction t)"
proof -
  have legacy: "\<not> (bit t 0 \<or> bit t 1)" if "IsLegacyTransaction t"
    using that by (simp add: IsLegacyTransaction_def TxType_defs)
  have "IsFeeDelegatedTransaction t \<longleftrightarrow> (bit t 0 \<or> bit t 1) \<and> \<not> IsEthereumTransaction t"
    using delegation_bits_zero [of t]
    by (simp add: IsFeeDelegatedTransaction_def TxFeeDelegationBitMask_def
        TxFeeDelegationWithRatioBitMask_def)
  also have "\<dots> \<longleftrightarrow> (bit t 0 \<or> bit t 1) \<and> \<not> IsEthTypedTransaction t"
    using legacy by (auto simp add: IsEthereumTransaction_def)
  finally have main: "IsFeeDelegatedTransaction t \<longleftrightarrow>
      (bit t 0 \<or> bit t 1) \<and> \<not> IsEthTypedTransaction t" .
  then show ?thesis
    by (simp only: delegation_bit_masks IsEthTypedTransaction_high_byte) blast
qed

theorem IsFeeDelegatedTransaction_iff_witness:
  "IsFeeDelegatedTransaction TxTypeFeeDelegatedValueTransfer
   \<and> drop_bit 8 (0x7801 :: TxType) = EthereumTxTypeEnvelope
   \<and> \<not> IsFeeDelegatedTransaction 0x7801"
  using IsFeeDelegatedTransaction_iff [of TxTypeFeeDelegatedValueTransfer]
    IsFeeDelegatedTransaction_iff [of "0x7801"]
  by (simp add: IsEthTypedTransaction_def EthereumTxTypeEnvelope_def TxFeeDelegationBitMask_def
      TxFeeDelegationWithRatioBitMask_def TxType_defs drop_bit_eq_div)

subsection \<open>Word count\<close>

text \<open>
  C6, as stated, fails at the lower end of the saturating range: \<^verbatim>\<open>MaxUint64 - 31\<close>
  is within 31 of the maximum, and \<^verbatim>\<open>toWordSize\<close> returns for it one less than the
  saturated count \<^verbatim>\<open>MaxUint64/32 + 1\<close>.
\<close>

theorem toWordSize_boundary_counterexample:
  "MaxUint64 - (MaxUint64 - 31) \<le> 31
   \<and> toWordSize (MaxUint64 - 31) = 0x7FFFFFFFFFFFFFF
   \<and> MaxUint64 div 32 + 1 = 0x800000000000000
   \<and> toWordSize (MaxUint64 - 31) \<noteq> MaxUint64 div 32 + 1"
  by (simp add: toWordSize_def MaxUint64_def)

text \<open>
  C6, amended. \<^verbatim>\<open>toWordSize\<close> is ceiling division by 32 with saturation: 0, 32 and
  33 bytes are 0, 1 and 2 words; for every n the result is the ceiling of n / 32; up to
  \<^verbatim>\<open>MaxUint64 - 31\<close> the sum \<^verbatim>\<open>size + 31\<close> does not overflow and is divided by 32;
  above \<^verbatim>\<open>MaxUint64 - 31\<close>, up to \<^verbatim>\<open>MaxUint64\<close> itself, the result is the saturated
  count \<^verbatim>\<open>MaxUint64/32 + 1\<close>, that is 2^59.
\<close>

theorem toWordSize_ceiling_saturating:
  "toWordSize 0 = 0 \<and> toWordSize 32 = 1 \<and> toWordSize 33 = 2
   \<and> (\<forall>n. n \<le> MaxUint64 - 31 \<longrightarrow>
          unat n + 31 < 2 ^ 64 \<and> toWordSize n = (n + 31) div 32
          \<and> int (unat (toWordSize n)) = \<lceil>real (unat n) / 32\<rceil>)
   \<and> (\<forall>n. MaxUint64 - 31 < n \<longrightarrow> toWordSize n = MaxUint64 div 32 + 1)
   \<and> (\<forall>n. int (unat (toWordSize n)) = \<lceil>real (unat n) / 32\<rceil>)
   \<and> toWordSize MaxUint64 = MaxUint64 div 32 + 1
   \<and> unat (MaxUint64 div 32 + 1) = 2 ^ 59"
proof -
  have ceil: "int ((m + 31) div 32) = \<lceil>real m / 32\<rceil>" for m :: nat
  proof -
    have "\<lceil>real m / 32\<rceil> = \<lceil>of_int (int m) / of_int 32 :: real\<rceil>"
      by simp
    also have "\<dots> = - (- int m div 32)"
      by (rule ceiling_divide_eq_div)
    also have "\<dots> = int ((m + 31) div 32)"
      by (simp add: zdiv_int)
    finally show ?thesis by simp
  qed
  have a: "toWordSize 0 = 0 \<and> toWordSize 32 = 1 \<and> toWordSize 33 = 2"
    by (simp add: toWordSize_def MaxUint64_def)
  have b: "unat n + 31 < 2 ^ 64 \<and> toWordSize n = (n + 31) div 32
          \<and> int (unat (toWordSize n)) = \<lceil>real (unat n) / 32\<rceil>"
    if "n \<le> MaxUint64 - 31" for n
  proof -
    from that have "unat n \<le> 2 ^ 64 - 32"
      by (simp add: word_le_nat_alt MaxUint64_def)
    then have "unat n + 31 < 2 ^ 64"
      by simp
    moreover have "toWordSize n = (n + 31) div 32"
      using that by (simp add: toWordSize_def not_less [symmetric])
    moreover have "int (unat (toWordSize n)) = \<lceil>real (unat n) / 32\<rceil>"
      by (simp only: toWordSize_unat ceil)
    ultimately show ?thesis by blast
  qed
  have c: "toWordSize n = MaxUint64 div 32 + 1" if "MaxUint64 - 31 < n" for n
    using that by (simp add: toWordSize_def)
  have d: "toWordSize MaxUint64 = MaxUint64 div 32 + 1 \<and> unat (MaxUint64 div 32 + 1) = 2 ^ 59"
    by (simp add: toWordSize_def MaxUint64_def)
  have e: "int (unat (toWordSize n)) = \<lceil>real (unat n) / 32\<rceil>" for n
    by (simp only: toWordSize_unat ceil)
  from a b c d e show ?thesis by blast
qed

theorem toWordSize_ceiling_saturating_witness:
  "(32::uint64) \<le> MaxUint64 - 31 \<and> MaxUint64 - 31 < MaxUint64 - 30
   \<and> toWordSize 32 = 1 \<and> toWordSize (MaxUint64 - 30) = 0x800000000000000"
  using toWordSize_ceiling_saturating by (simp add: MaxUint64_def toWordSize_def)

subsection \<open>Overflow checks of the payload cost\<close>

lemma check_iff:
  fixes gas n price :: uint64
  assumes "0 < price"
  shows "(MaxUint64 - gas) div price < n \<longleftrightarrow> 2 ^ 64 \<le> unat gas + unat n * unat price"
proof -
  have P: "0 < unat price"
    using assms by (simp add: word_greater_zero_iff unat_gt_0)
  have G: "unat gas < 2 ^ 64"
    using unsigned_less [of gas] by simp
  have "gas \<le> MaxUint64"
    by (simp add: MaxUint64_def word_le_nat_alt) (use G in simp)
  then have sub: "unat (MaxUint64 - gas) = 2 ^ 64 - 1 - unat gas"
    by (simp add: unat_sub MaxUint64_unat)
  have "(MaxUint64 - gas) div price < n \<longleftrightarrow> (2 ^ 64 - 1 - unat gas) div unat price < unat n"
    by (simp add: word_less_nat_alt unat_div sub)
  also have "\<dots> \<longleftrightarrow> 2 ^ 64 - 1 - unat gas < unat n * unat price"
    using P by (simp add: div_less_iff_less_mult)
  also have "\<dots> \<longleftrightarrow> 2 ^ 64 \<le> unat gas + unat n * unat price"
    using G by auto
  finally show ?thesis .
qed

lemma add_exact:
  fixes gas n price :: uint64
  assumes "unat gas + unat n * unat price < 2 ^ 64"
  shows "unat (gas + n * price) = unat gas + unat n * unat price"
proof -
  have "unat n * unat price < 2 ^ 64"
    using assms by simp
  then have "unat (n * price) = unat n * unat price"
    by (simp add: unat_word_ariths)
  then show ?thesis
    using assms by (simp add: unat_word_ariths)
qed


lemma charge:
  fixes gas n price :: uint64
  assumes "0 < price"
  shows "(if (MaxUint64 - gas) div price < n then Inl E else Inr (gas + n * price))
       = (if unat gas + unat n * unat price < 2 ^ 64
          then Inr (of_nat (unat gas + unat n * unat price)) else Inl E)"
proof (cases "unat gas + unat n * unat price < 2 ^ 64")
  case True
  then have "gas + n * price = of_nat (unat gas + unat n * unat price)"
    using add_exact [OF True] by (simp add: word_unat_eq_iff unat_of_nat)
  with True show ?thesis
    by (simp add: check_iff [OF assms])
next
  case False
  then show ?thesis
    by (simp add: check_iff [OF assms])
qed

lemma unat_of_nat64: "m < 2 ^ 64 \<Longrightarrow> unat (of_nat m :: uint64) = m"
  by (simp add: unat_of_nat)

text \<open>Chaining a second charge after a first one.\<close>

lemma charge_bind:
  fixes price :: uint64
  assumes "0 < price"
  shows "(case (if a < 2 ^ 64 then Inr (of_nat a :: uint64) else Inl E) of
            Inl err \<Rightarrow> Inl err
          | Inr g \<Rightarrow> if (MaxUint64 - g) div price < n then Inl E else Inr (g + n * price))
       = (if a + unat n * unat price < 2 ^ 64
          then Inr (of_nat (a + unat n * unat price)) else Inl E)"
proof (cases "a < 2 ^ 64")
  case True
  then have "unat (of_nat a :: uint64) = a"
    by (rule unat_of_nat64)
  with True show ?thesis
    using charge [OF assms, of "of_nat a" n E] by simp
next
  case False
  then show ?thesis by simp
qed


lemma two_charges:
  fixes a b :: uint64
  assumes "0 < a" and "0 < b"
  shows "(if (MaxUint64 - gas) div a < nz then Inl E
          else if (MaxUint64 - (gas + nz * a)) div b < z then Inl E
               else Inr (gas + nz * a + z * b))
       = (if unat gas + unat nz * unat a + unat z * unat b < 2 ^ 64
          then Inr (of_nat (unat gas + unat nz * unat a + unat z * unat b)) else Inl E)"
proof -
  have "(if (MaxUint64 - gas) div a < nz then Inl E
          else if (MaxUint64 - (gas + nz * a)) div b < z then Inl E
               else Inr (gas + nz * a + z * b))
      = (case (if (MaxUint64 - gas) div a < nz then Inl E else Inr (gas + nz * a)) of
            Inl err \<Rightarrow> Inl err
          | Inr g \<Rightarrow> if (MaxUint64 - g) div b < z then Inl E else Inr (g + z * b))"
    by simp
  also have "\<dots> = (case (if unat gas + unat nz * unat a < 2 ^ 64
                          then Inr (of_nat (unat gas + unat nz * unat a)) else Inl E) of
            Inl err \<Rightarrow> Inl err
          | Inr g \<Rightarrow> if (MaxUint64 - g) div b < z then Inl E else Inr (g + z * b))"
    by (simp only: charge [OF assms(1)])
  also have "\<dots> = (if unat gas + unat nz * unat a + unat z * unat b < 2 ^ 64
          then Inr (of_nat (unat gas + unat nz * unat a + unat z * unat b)) else Inl E)"
    by (rule charge_bind [OF assms(2)])
  finally show ?thesis .
qed

lemma byte_counts:
  assumes "length data < 2 ^ 64"
  shows "unat (of_nat (length data) :: uint64) = length data"
    and "unat (of_nat (count_list data 0) :: uint64) = count_list data 0"
    and "unat (of_nat (length data) - of_nat (count_list data 0) :: uint64)
           = length data - count_list data 0"
proof -
  have le: "count_list data 0 \<le> length data"
    by (rule count_le_length)
  show 1: "unat (of_nat (length data) :: uint64) = length data"
    using assms by (rule unat_of_nat64)
  show 2: "unat (of_nat (count_list data 0) :: uint64) = count_list data 0"
    using le assms by (intro unat_of_nat64) simp
  have "(of_nat (count_list data 0) :: uint64) \<le> of_nat (length data)"
    using le by (simp only: word_le_nat_alt 1 2)
  then show "unat (of_nat (length data) - of_nat (count_list data 0) :: uint64)
           = length data - count_list data 0"
    by (simp only: unat_sub 1 2)
qed

lemma data_part_exact:
  fixes a b :: uint64
  assumes "0 < a" and "0 < b" and len: "length data < 2 ^ 64"
  shows "(if (of_nat (length data) :: uint64) > 0 then
            (let z = (of_nat (count_list data 0) :: uint64);
                 nz = of_nat (length data) - z
             in if (MaxUint64 - gas) div a < nz then Inl ErrGasUintOverflow
                else (let gas1 = gas + nz * a
                      in if (MaxUint64 - gas1) div b < z then Inl ErrGasUintOverflow
                         else Inr (gas1 + z * b)))
          else Inr gas)
       = (let t = unat gas + (length data - count_list data 0) * unat a + count_list data 0 * unat b
          in if t < 2 ^ 64 then Inr (of_nat t) else Inl ErrGasUintOverflow)"
proof (cases "length data = 0")
  case True
  have "unat gas < 2 ^ 64"
    using unsigned_less [of gas] by simp
  with True show ?thesis
    by (simp add: Let_def)
next
  case False
  then have "unat (of_nat (length data) :: uint64) \<noteq> 0"
    using byte_counts(1) [OF len] by simp
  then have pos: "(of_nat (length data) :: uint64) > 0"
    by (simp add: word_greater_zero_iff unat_eq_zero)
  show ?thesis
    using pos two_charges [OF assms(1,2), of gas
        "of_nat (length data) - of_nat (count_list data 0)" ErrGasUintOverflow
        "of_nat (count_list data 0)"]
    by (simp only: Let_def if_True byte_counts [OF len])
qed


lemma IntrinsicGasPayloadLegacy_exact:
  assumes ok: "divisors_nonzero p" and len: "length data < 2 ^ 64"
  shows "IntrinsicGasPayloadLegacy p gas data =
           (if unat gas + legacy_payload_cost p data < 2 ^ 64
            then Inr (of_nat (unat gas + legacy_payload_cost p data))
            else Inl ErrGasUintOverflow)"
proof -
  have a: "0 < TxDataNonZeroGasFrontier p" and b: "0 < TxDataZeroGas p"
    using ok by (simp_all add: divisors_nonzero_def)
  show ?thesis
    unfolding IntrinsicGasPayloadLegacy_def legacy_payload_cost_def
    using data_part_exact [OF a b len, of gas]
    by (simp add: Let_def)
qed

lemma IntrinsicGasPayload_exact:
  assumes ok: "divisors_nonzero p" and len: "length data < 2 ^ 64"
  shows "IntrinsicGasPayload p gas data cc r =
           (if unat gas + payload_cost p r data + word_cost p r cc data < 2 ^ 64
            then Inr (of_nat (unat gas + payload_cost p r data + word_cost p r cc data))
            else Inl ErrGasUintOverflow)"
proof -
  define a where "a = (if IsPrague r then TxDataNonZeroGasEIP2028 p else TxDataGas p)"
  define b where "b = (if IsPrague r then TxDataZeroGas p else TxDataGas p)"
  have a: "0 < a" and b: "0 < b" and w: "0 < InitCodeWordGas p"
    using ok by (simp_all add: divisors_nonzero_def a_def b_def)
  have le: "count_list data 0 \<le> length data"
    by (rule count_le_length)
  have cost: "(length data - count_list data 0) * unat a + count_list data 0 * unat b
                = payload_cost p r data"
  proof (cases "IsPrague r")
    case True
    then show ?thesis by (simp add: payload_cost_def a_def b_def Let_def)
  next
    case False
    then have "(length data - count_list data 0) * unat a + count_list data 0 * unat b
                 = ((length data - count_list data 0) + count_list data 0) * unat (TxDataGas p)"
      by (simp only: a_def b_def if_False add_mult_distrib)
    also have "\<dots> = length data * unat (TxDataGas p)"
      using le by simp
    finally show ?thesis
      using False by (simp add: payload_cost_def Let_def)
  qed
  have cost': "unat gas + (length data - count_list data 0) * unat a + count_list data 0 * unat b
                = unat gas + payload_cost p r data"
    using cost by simp
  have words: "unat (toWordSize (of_nat (length data))) = (length data + 31) div 32"
    by (simp only: toWordSize_unat byte_counts(1) [OF len])
  have unfold: "IntrinsicGasPayload p gas data cc r =
     (case (if unat gas + payload_cost p r data < 2 ^ 64
            then Inr (of_nat (unat gas + payload_cost p r data)) else Inl ErrGasUintOverflow) of
        Inl err \<Rightarrow> Inl err
      | Inr gas2 \<Rightarrow>
          if cc \<and> IsShanghai r then
            (if (MaxUint64 - gas2) div InitCodeWordGas p < toWordSize (of_nat (length data))
             then Inl ErrGasUintOverflow
             else Inr (gas2 + toWordSize (of_nat (length data)) * InitCodeWordGas p))
          else Inr gas2)"
    unfolding IntrinsicGasPayload_def Let_def a_def [symmetric] b_def [symmetric]
    by (simp only: data_part_exact [OF a b len, of gas, unfolded Let_def] cost')
  show ?thesis
  proof (cases "cc \<and> IsShanghai r")
    case True
    then have wc: "word_cost p r cc data
                     = unat (toWordSize (of_nat (length data))) * unat (InitCodeWordGas p)"
      by (simp add: word_cost_def words)
    have "IntrinsicGasPayload p gas data cc r =
       (case (if unat gas + payload_cost p r data < 2 ^ 64
              then Inr (of_nat (unat gas + payload_cost p r data)) else Inl ErrGasUintOverflow) of
          Inl err \<Rightarrow> Inl err
        | Inr g \<Rightarrow>
            if (MaxUint64 - g) div InitCodeWordGas p < toWordSize (of_nat (length data))
            then Inl ErrGasUintOverflow
            else Inr (g + toWordSize (of_nat (length data)) * InitCodeWordGas p))"
      unfolding unfold using True by (simp only: simp_thms if_True)
    also have "\<dots> = (if unat gas + payload_cost p r data
                           + unat (toWordSize (of_nat (length data))) * unat (InitCodeWordGas p) < 2 ^ 64
          then Inr (of_nat (unat gas + payload_cost p r data
                           + unat (toWordSize (of_nat (length data))) * unat (InitCodeWordGas p)))
          else Inl ErrGasUintOverflow)"
      by (rule charge_bind [OF w])
    finally show ?thesis
      by (simp only: wc)
  next
    case False
    then have wc: "word_cost p r cc data = 0"
      by (auto simp add: word_cost_def)
    have "IntrinsicGasPayload p gas data cc r =
       (if unat gas + payload_cost p r data < 2 ^ 64
        then Inr (of_nat (unat gas + payload_cost p r data)) else Inl ErrGasUintOverflow)"
      unfolding unfold using False by (auto split: sum.splits)
    then show ?thesis
      by (simp only: wc add_0_right)
  qed
qed


subsection \<open>Intrinsic gas\<close>

lemma list_cost_word:
  "(case auths of None \<Rightarrow>
       (case al of None \<Rightarrow> g
        | Some l \<Rightarrow> g + of_nat (length l) * TxAccessListAddressGas p
            + of_nat (AccessList_StorageKeys l) * TxAccessListStorageKeyGas p)
     | Some a \<Rightarrow>
       (case al of None \<Rightarrow> g
        | Some l \<Rightarrow> g + of_nat (length l) * TxAccessListAddressGas p
            + of_nat (AccessList_StorageKeys l) * TxAccessListStorageKeyGas p)
       + of_nat (length a) * CallNewAccountGas p)
   = (g + of_nat (list_cost p al auths) :: uint64)"
  by (simp add: list_cost_def split: option.splits)

lemma IntrinsicGas_exact:
  assumes ok: "divisors_nonzero p" and len: "length data < 2 ^ 64"
  shows "IntrinsicGas p data al auths cc r =
           (if payload_total p r cc data < 2 ^ 64
            then Inr (of_nat (payload_total p r cc data + list_cost p al auths))
            else Inl ErrGasUintOverflow)"
proof -
  have pay: "(if IsIstanbul r then IntrinsicGasPayload p (base_gas p cc) data cc r
              else IntrinsicGasPayloadLegacy p (base_gas p cc) data)
           = (if payload_total p r cc data < 2 ^ 64
              then Inr (of_nat (payload_total p r cc data)) else Inl ErrGasUintOverflow)"
    by (simp add: IntrinsicGasPayload_exact [OF ok len] IntrinsicGasPayloadLegacy_exact [OF ok len]
        payload_total_def add.assoc)
  show ?thesis
    unfolding IntrinsicGas_def Let_def base_gas_def [symmetric] pay
    by (simp add: list_cost_word)
qed

lemma checked_result:
  fixes res :: "error + uint64"
  assumes "res = (if t < 2 ^ 64 then Inr (of_nat t) else Inl ErrGasUintOverflow)"
  shows "(t < 2 ^ 64 \<longrightarrow> (\<exists>g. res = Inr g \<and> unat g = t))
       \<and> (2 ^ 64 \<le> t \<longrightarrow> res = Inl ErrGasUintOverflow)"
  using assms by (cases "t < 2 ^ 64") (simp_all add: unat_of_nat64)

lemma count_list_replicate: "count_list (replicate n x) y = (if x = y then n else 0)"
  by (induction n) auto

text \<open>
  C2, as stated, fails: with an authorization list of 737869762948382 entries the
  authorization-list cost added to the base cost exceeds the unsigned 64-bit range, and
  \<^verbatim>\<open>IntrinsicGas\<close> returns the wrapped value 19384 instead of the overflow error.
\<close>

theorem IntrinsicGas_list_cost_wraps_counterexample:
  "IntrinsicGas ref_params [] None (Some (replicate 737869762948382 sample_auth)) False istanbul_rules
     = Inr 19384
   \<and> (2::nat) ^ 64 \<le> unat (TxGas ref_params) + 737869762948382 * unat (CallNewAccountGas ref_params)"
  by (simp add: IntrinsicGas_def IntrinsicGasPayload_def istanbul_rules_def ref_params_def)

text \<open>
  C2, amended. Every step of the payload cost and of the word-size cost is checked:
  \<^verbatim>\<open>IntrinsicGasPayload\<close> and \<^verbatim>\<open>IntrinsicGasPayloadLegacy\<close> return the exact sum when it
  fits 64 bits and the overflow error otherwise, and \<^verbatim>\<open>IntrinsicGas\<close> fails exactly when
  they do. The access-list and authorization-list costs are then added modulo 2^64.
\<close>

theorem payload_steps_overflow_checked:
  assumes ok: "divisors_nonzero p" and len: "length data < 2 ^ 63"
  shows "(let t = unat gas + payload_cost p r data + word_cost p r cc data in
            (t < 2 ^ 64 \<longrightarrow> (\<exists>g. IntrinsicGasPayload p gas data cc r = Inr g \<and> unat g = t))
          \<and> (2 ^ 64 \<le> t \<longrightarrow> IntrinsicGasPayload p gas data cc r = Inl ErrGasUintOverflow))
       \<and> (let t = unat gas + legacy_payload_cost p data in
            (t < 2 ^ 64 \<longrightarrow> (\<exists>g. IntrinsicGasPayloadLegacy p gas data = Inr g \<and> unat g = t))
          \<and> (2 ^ 64 \<le> t \<longrightarrow> IntrinsicGasPayloadLegacy p gas data = Inl ErrGasUintOverflow))
       \<and> (let t = payload_total p r cc data in
            (t < 2 ^ 64 \<longrightarrow>
               (\<exists>g. IntrinsicGas p data accessList authorizationList cc r = Inr g
                  \<and> unat g = (t + list_cost p accessList authorizationList) mod 2 ^ 64))
          \<and> (2 ^ 64 \<le> t \<longrightarrow>
               IntrinsicGas p data accessList authorizationList cc r = Inl ErrGasUintOverflow))"
proof -
  have l: "length data < 2 ^ 64"
    using len by simp
  have 1: "(let t = unat gas + payload_cost p r data + word_cost p r cc data in
            (t < 2 ^ 64 \<longrightarrow> (\<exists>g. IntrinsicGasPayload p gas data cc r = Inr g \<and> unat g = t))
          \<and> (2 ^ 64 \<le> t \<longrightarrow> IntrinsicGasPayload p gas data cc r = Inl ErrGasUintOverflow))"
    unfolding Let_def by (rule checked_result) (rule IntrinsicGasPayload_exact [OF ok l])
  have 2: "(let t = unat gas + legacy_payload_cost p data in
            (t < 2 ^ 64 \<longrightarrow> (\<exists>g. IntrinsicGasPayloadLegacy p gas data = Inr g \<and> unat g = t))
          \<and> (2 ^ 64 \<le> t \<longrightarrow> IntrinsicGasPayloadLegacy p gas data = Inl ErrGasUintOverflow))"
    unfolding Let_def by (rule checked_result) (rule IntrinsicGasPayloadLegacy_exact [OF ok l])
  have 3: "(let t = payload_total p r cc data in
            (t < 2 ^ 64 \<longrightarrow>
               (\<exists>g. IntrinsicGas p data accessList authorizationList cc r = Inr g
                  \<and> unat g = (t + list_cost p accessList authorizationList) mod 2 ^ 64))
          \<and> (2 ^ 64 \<le> t \<longrightarrow>
               IntrinsicGas p data accessList authorizationList cc r = Inl ErrGasUintOverflow))"
    unfolding Let_def IntrinsicGas_exact [OF ok l] by (simp add: unat_of_nat del: of_nat_add)
  from 1 2 3 show ?thesis
    by (rule conjI [OF _ conjI])
qed

theorem payload_steps_overflow_checked_witness:
  "divisors_nonzero ref_params \<and> length [1 :: 8 word] < 2 ^ 63
   \<and> IntrinsicGasPayload ref_params (MaxUint64 - 50) [1] False istanbul_rules = Inl ErrGasUintOverflow
   \<and> IntrinsicGasPayload ref_params 21000 [1] False istanbul_rules = Inr 21100
   \<and> IntrinsicGasPayloadLegacy ref_params 21000 [1] = Inr 21068
   \<and> IntrinsicGasPayloadLegacy ref_params (MaxUint64 - 50) [1] = Inl ErrGasUintOverflow
   \<and> IntrinsicGas ref_params [1] None None False istanbul_rules = Inr 21100
   \<and> length (replicate 184467440737095517 (1 :: 8 word)) < 2 ^ 63
   \<and> 2 ^ 64 \<le> payload_total ref_params istanbul_rules False (replicate 184467440737095517 1)
   \<and> IntrinsicGas ref_params (replicate 184467440737095517 1) None None False istanbul_rules
        = Inl ErrGasUintOverflow"
proof -
  have ok: "divisors_nonzero ref_params"
    by (simp add: divisors_nonzero_def ref_params_def)
  have big: "length (replicate 184467440737095517 (1 :: 8 word)) < 2 ^ 63"
    by simp
  have over: "2 ^ 64 \<le> payload_total ref_params istanbul_rules False (replicate 184467440737095517 1)"
    by (simp add: payload_total_def base_gas_def payload_cost_def word_cost_def Let_def
        istanbul_rules_def ref_params_def)
  have "IntrinsicGas ref_params (replicate 184467440737095517 1) None None False istanbul_rules
        = Inl ErrGasUintOverflow"
    using payload_steps_overflow_checked [OF ok big, of 0 istanbul_rules False None None] over
    by (simp add: Let_def)
  then show ?thesis
    using ok big over
      payload_steps_overflow_checked [of ref_params "[1]" 21000 istanbul_rules False None None]
      payload_steps_overflow_checked [of ref_params "[1]" "MaxUint64 - 50" istanbul_rules False None None]
    by (simp add: IntrinsicGas_def IntrinsicGasPayload_def IntrinsicGasPayloadLegacy_def
      istanbul_rules_def ref_params_def MaxUint64_def Let_def)
qed

text \<open>
  C3. Without the Prague flag \<^verbatim>\<open>IntrinsicGasPayload\<close> charges the flat price
  \<^verbatim>\<open>TxDataGas\<close> for every payload byte, zero or not; with the Prague flag it charges
  \<^verbatim>\<open>TxDataZeroGas\<close> per zero byte and \<^verbatim>\<open>TxDataNonZeroGasEIP2028\<close> per non-zero byte.
  With the Istanbul flag and without the Prague flag, a 64-byte payload with 32 zero
  bytes in a call that creates no contract costs the base call cost plus 64 times the
  flat price.
\<close>

theorem payload_pricing_by_rules:
  assumes ok: "divisors_nonzero p" and len: "length data < 2 ^ 63"
  shows "(\<not> IsPrague r \<longrightarrow>
            IntrinsicGasPayload p gas data cc r =
              (let t = unat gas + length data * unat (TxDataGas p) + word_cost p r cc data
               in if t < 2 ^ 64 then Inr (of_nat t) else Inl ErrGasUintOverflow))
       \<and> (IsPrague r \<longrightarrow>
            IntrinsicGasPayload p gas data cc r =
              (let z = count_list data 0; nz = length data - z;
                   t = unat gas + (nz * unat (TxDataNonZeroGasEIP2028 p) + z * unat (TxDataZeroGas p))
                        + word_cost p r cc data
               in if t < 2 ^ 64 then Inr (of_nat t) else Inl ErrGasUintOverflow))
       \<and> (IsIstanbul r \<and> \<not> IsPrague r \<and> length data = 64 \<and> count_list data 0 = 32
            \<and> unat (TxGas p) + 64 * unat (TxDataGas p) < 2 ^ 64 \<longrightarrow>
            IntrinsicGas p data None None False r = Inr (TxGas p + 64 * TxDataGas p))"
proof -
  have l: "length data < 2 ^ 64"
    using len by simp
  have 1: "\<not> IsPrague r \<longrightarrow>
            IntrinsicGasPayload p gas data cc r =
              (let t = unat gas + length data * unat (TxDataGas p) + word_cost p r cc data
               in if t < 2 ^ 64 then Inr (of_nat t) else Inl ErrGasUintOverflow)"
    by (simp add: IntrinsicGasPayload_exact [OF ok l] payload_cost_def Let_def)
  have 2: "IsPrague r \<longrightarrow>
            IntrinsicGasPayload p gas data cc r =
              (let z = count_list data 0; nz = length data - z;
                   t = unat gas + (nz * unat (TxDataNonZeroGasEIP2028 p) + z * unat (TxDataZeroGas p))
                        + word_cost p r cc data
               in if t < 2 ^ 64 then Inr (of_nat t) else Inl ErrGasUintOverflow)"
    by (simp add: IntrinsicGasPayload_exact [OF ok l] payload_cost_def Let_def)
  have 3: "IsIstanbul r \<and> \<not> IsPrague r \<and> length data = 64 \<and> count_list data 0 = 32
            \<and> unat (TxGas p) + 64 * unat (TxDataGas p) < 2 ^ 64 \<longrightarrow>
            IntrinsicGas p data None None False r = Inr (TxGas p + 64 * TxDataGas p)"
    by (simp add: IntrinsicGas_exact [OF ok l] payload_total_def base_gas_def payload_cost_def
        word_cost_def list_cost_def Let_def)
  from 1 2 3 show ?thesis
    by (rule conjI [OF _ conjI])
qed

theorem payload_pricing_by_rules_witness:
  "divisors_nonzero ref_params \<and> length payload64 < 2 ^ 63
   \<and> IsIstanbul istanbul_rules \<and> \<not> IsPrague istanbul_rules \<and> IsPrague prague_rules
   \<and> length payload64 = 64 \<and> count_list payload64 0 = 32
   \<and> IntrinsicGas ref_params payload64 None None False istanbul_rules = Inr 27400
   \<and> IntrinsicGasPayload ref_params 21000 payload64 False istanbul_rules = Inr 27400
   \<and> IntrinsicGasPayload ref_params 21000 payload64 False prague_rules = Inr 21640"
  using payload_pricing_by_rules [of ref_params payload64 istanbul_rules 21000 False]
    payload_pricing_by_rules [of ref_params payload64 prague_rules 21000 False]
  by (simp add: payload64_def istanbul_rules_def prague_rules_def ref_params_def
      divisors_nonzero_def word_cost_def Let_def count_list_replicate)

lemma nonzero_count_mono:
  "length d - count_list d (0::8 word) \<le> length (d @ e) - count_list (d @ e) 0"
  using count_le_length [of e 0] count_le_length [of d 0] by simp

lemma payload_cost_mono: "payload_cost p r d \<le> payload_cost p r (d @ e)"
proof (cases "IsPrague r")
  case True
  have "(length d - count_list d 0) * unat (TxDataNonZeroGasEIP2028 p)
          \<le> (length (d @ e) - count_list (d @ e) 0) * unat (TxDataNonZeroGasEIP2028 p)"
    by (rule mult_le_mono1) (rule nonzero_count_mono)
  moreover have "count_list d 0 * unat (TxDataZeroGas p)
          \<le> count_list (d @ e) 0 * unat (TxDataZeroGas p)"
    by (rule mult_le_mono1) simp
  ultimately show ?thesis
    using True by (simp only: payload_cost_def Let_def if_True add_mono)
next
  case False
  then show ?thesis
    by (simp add: payload_cost_def Let_def)
qed

lemma legacy_payload_cost_mono: "legacy_payload_cost p d \<le> legacy_payload_cost p (d @ e)"
proof -
  have "(length d - count_list d 0) * unat (TxDataNonZeroGasFrontier p)
          \<le> (length (d @ e) - count_list (d @ e) 0) * unat (TxDataNonZeroGasFrontier p)"
    by (rule mult_le_mono1) (rule nonzero_count_mono)
  moreover have "count_list d 0 * unat (TxDataZeroGas p)
          \<le> count_list (d @ e) 0 * unat (TxDataZeroGas p)"
    by (rule mult_le_mono1) simp
  ultimately show ?thesis
    by (simp only: legacy_payload_cost_def Let_def add_mono)
qed

lemma word_cost_mono: "word_cost p r cc d \<le> word_cost p r cc (d @ e)"
proof -
  have "(length d + 31) div 32 \<le> (length (d @ e) + 31) div 32"
    by (rule div_le_mono) simp
  then show ?thesis
    by (simp add: word_cost_def)
qed

lemma payload_total_mono: "payload_total p r cc d \<le> payload_total p r cc (d @ e)"
  using payload_cost_mono [of p r d e] legacy_payload_cost_mono [of p d e]
    word_cost_mono [of p r cc d e]
  by (simp add: payload_total_def)

text \<open>
  C7, as stated, fails: with an authorization list of 737869762948381 entries
  \<^verbatim>\<open>IntrinsicGas\<close> succeeds on the empty payload and on its extension by 57 bytes, and
  the gas of the extension, wrapped around, is the smaller one.
\<close>

theorem IntrinsicGas_not_monotone_counterexample:
  "IntrinsicGas ref_params [] None (Some (replicate 737869762948381 sample_auth)) False istanbul_rules
     = Inr 18446744073709546000
   \<and> IntrinsicGas ref_params ([] @ replicate 57 1) None (Some (replicate 737869762948381 sample_auth))
        False istanbul_rules = Inr 84
   \<and> (84 :: uint64) < 18446744073709546000"
  by (simp add: IntrinsicGas_def IntrinsicGasPayload_def istanbul_rules_def ref_params_def
      MaxUint64_def Let_def)

text \<open>
  C7, amended. A Go slice has fewer than 2^63 elements. If \<^verbatim>\<open>IntrinsicGas\<close> succeeds on
  a payload and on an extension of it, with the same lists, flag and rule set, and the
  unchecked additions of the list costs do not wrap around for the extension, then the
  gas of the extension is at least the gas of the payload.
\<close>

theorem IntrinsicGas_monotone:
  assumes ok: "divisors_nonzero p" and len: "length (d @ e) < 2 ^ 63"
    and g: "IntrinsicGas p d accessList authorizationList contractCreation r = Inr g"
    and g': "IntrinsicGas p (d @ e) accessList authorizationList contractCreation r = Inr g'"
    and nowrap: "payload_total p r contractCreation (d @ e)
                   + list_cost p accessList authorizationList < 2 ^ 64"
  shows "g \<le> g'"
proof -
  have l1: "length d < 2 ^ 64" and l2: "length (d @ e) < 2 ^ 64"
    using len by simp_all
  let ?t = "payload_total p r contractCreation d + list_cost p accessList authorizationList"
  let ?t' = "payload_total p r contractCreation (d @ e) + list_cost p accessList authorizationList"
  have le: "?t \<le> ?t'"
    using payload_total_mono [of p r contractCreation d e] by simp
  have "g = of_nat ?t"
    using g unfolding IntrinsicGas_exact [OF ok l1] by (simp split: if_splits)
  moreover have "g' = of_nat ?t'"
    using g' unfolding IntrinsicGas_exact [OF ok l2] by (simp split: if_splits)
  ultimately have "unat g = ?t" and "unat g' = ?t'"
    using le nowrap by (simp_all only: unat_of_nat64)
  then show ?thesis
    using le by (simp only: word_le_nat_alt)
qed

theorem IntrinsicGas_monotone_witness:
  "divisors_nonzero ref_params \<and> length ([0, 1] @ [2 :: 8 word]) < 2 ^ 63
   \<and> IntrinsicGas ref_params [0, 1] None (Some [sample_auth]) False istanbul_rules = Inr 46200
   \<and> IntrinsicGas ref_params ([0, 1] @ [2]) None (Some [sample_auth]) False istanbul_rules = Inr 46300
   \<and> payload_total ref_params istanbul_rules False ([0, 1] @ [2])
        + list_cost ref_params None (Some [sample_auth]) < 2 ^ 64
   \<and> (46200 :: uint64) \<le> 46300"
  using IntrinsicGas_monotone [of ref_params "[0, 1]" "[2]" None "Some [sample_auth]" False istanbul_rules 46200 46300]
  by (simp add: IntrinsicGas_def IntrinsicGasPayload_def istanbul_rules_def ref_params_def
      MaxUint64_def Let_def divisors_nonzero_def payload_total_def base_gas_def payload_cost_def
      word_cost_def list_cost_def)

subsection \<open>The variant registry\<close>

lemma constructible:
  "set declared_TxTypes - {TxTypeAccountCreation, TxTypeBatch, TxTypeKaiaLast, TxTypeEthereumLast}
     = {TxTypeLegacyTransaction, TxTypeValueTransfer, TxTypeFeeDelegatedValueTransfer,
        TxTypeFeeDelegatedValueTransferWithRatio, TxTypeValueTransferMemo,
        TxTypeFeeDelegatedValueTransferMemo, TxTypeFeeDelegatedValueTransferMemoWithRatio,
        TxTypeAccountUpdate, TxTypeFeeDelegatedAccountUpdate,
        TxTypeFeeDelegatedAccountUpdateWithRatio, TxTypeSmartContractDeploy,
        TxTypeFeeDelegatedSmartContractDeploy, TxTypeFeeDelegatedSmartContractDeployWithRatio,
        TxTypeSmartContractExecution, TxTypeFeeDelegatedSmartContractExecution,
        TxTypeFeeDelegatedSmartContractExecutionWithRatio, TxTypeCancel, TxTypeFeeDelegatedCancel,
        TxTypeFeeDelegatedCancelWithRatio, TxTypeChainDataAnchoring,
        TxTypeFeeDelegatedChainDataAnchoring, TxTypeFeeDelegatedChainDataAnchoringWithRatio,
        TxTypeEthereumAccessList, TxTypeEthereumDynamicFee, TxTypeEthereumSetCode}"
  by (auto simp add: declared_TxTypes_def TxType_defs)

lemma New_roundtrip: "NewTxInternalData t = Inr v \<Longrightarrow> txdata_Type v = t"
  unfolding NewTxInternalData_def by (auto split: if_splits)

lemma New_fail: "NewTxInternalData t = Inl e \<Longrightarrow> e = errUndefinedTxType"
  unfolding NewTxInternalData_def by (auto split: if_splits)

lemma New_succeeds_iff:
  "(\<exists>v. NewTxInternalData t = Inr v) \<longleftrightarrow>
     t \<in> set declared_TxTypes - {TxTypeAccountCreation, TxTypeBatch, TxTypeKaiaLast, TxTypeEthereumLast}"
  unfolding constructible NewTxInternalData_def by auto

text \<open>
  C4, as stated, fails: the tag of the account-creation family is declared in the
  enumeration, its case in the switch is commented out, and the constructor answers
  with the undefined-type error.
\<close>

theorem NewTxInternalData_account_creation_counterexample: "TxTypeAccountCreation \<in> set declared_TxTypes
   \<and> NewTxInternalData TxTypeAccountCreation = Inl errUndefinedTxType"
  by (simp add: declared_TxTypes_def NewTxInternalData_def TxType_defs)

text \<open>
  C4, amended. For every declared tag other than the disabled account-creation tag, the
  batch tag and the two end markers, \<^verbatim>\<open>NewTxInternalData\<close> succeeds with a variant whose
  type is the tag; for every other 16-bit tag it fails with the undefined-type error.
\<close>

theorem NewTxInternalData_roundtrip:
  "(t \<in> set declared_TxTypes - {TxTypeAccountCreation, TxTypeBatch, TxTypeKaiaLast, TxTypeEthereumLast}
      \<longrightarrow> (\<exists>v. NewTxInternalData t = Inr v \<and> txdata_Type v = t))
   \<and> (t \<notin> set declared_TxTypes - {TxTypeAccountCreation, TxTypeBatch, TxTypeKaiaLast, TxTypeEthereumLast}
      \<longrightarrow> NewTxInternalData t = Inl errUndefinedTxType)"
proof (cases "NewTxInternalData t")
  case (Inl e)
  then have "NewTxInternalData t = Inl errUndefinedTxType"
    using New_fail by blast
  moreover have "\<not> (\<exists>v. NewTxInternalData t = Inr v)"
    using Inl by simp
  ultimately show ?thesis
    using New_succeeds_iff [of t] by blast
next
  case (Inr v)
  then show ?thesis
    using New_roundtrip [of t v] New_succeeds_iff [of t] by auto
qed

theorem NewTxInternalData_roundtrip_witness:
  "TxTypeFeeDelegatedCancel \<in> set declared_TxTypes
      - {TxTypeAccountCreation, TxTypeBatch, TxTypeKaiaLast, TxTypeEthereumLast}
   \<and> NewTxInternalData TxTypeFeeDelegatedCancel = Inr TxInternalDataFeeDelegatedCancel
   \<and> txdata_Type TxInternalDataFeeDelegatedCancel = TxTypeFeeDelegatedCancel
   \<and> (0x7803 :: TxType) \<notin> set declared_TxTypes
      - {TxTypeAccountCreation, TxTypeBatch, TxTypeKaiaLast, TxTypeEthereumLast}
   \<and> NewTxInternalData 0x7803 = Inl errUndefinedTxType"
  using NewTxInternalData_roundtrip [of TxTypeFeeDelegatedCancel]
    NewTxInternalData_roundtrip [of "0x7803"]
  by (simp add: declared_TxTypes_def NewTxInternalData_def TxType_defs)

subsection \<open>The static gas table\<close>

lemma in_table:
  "set declared_TxTypes - {TxTypeBatch, TxTypeKaiaLast, TxTypeEthereumLast}
     = fst ` set (txTypeToGasMap p)"
  by (auto simp add: declared_TxTypes_def txTypeToGasMap_def TxType_defs)

lemma Get_iff:
  "(\<exists>gas. GetTxGasForTxType p t = Inr gas) \<longleftrightarrow>
     t \<in> set declared_TxTypes - {TxTypeBatch, TxTypeKaiaLast, TxTypeEthereumLast}"
proof -
  have "(\<exists>gas. GetTxGasForTxType p t = Inr gas) \<longleftrightarrow> map_of (txTypeToGasMap p) t \<noteq> None"
    by (auto simp add: GetTxGasForTxType_def split: option.splits)
  also have "\<dots> \<longleftrightarrow> t \<in> fst ` set (txTypeToGasMap p)"
    by (simp add: map_of_eq_None_iff)
  finally show ?thesis
    by (simp only: in_table [of p])
qed

lemma Get_fail:
  "t \<notin> set declared_TxTypes - {TxTypeBatch, TxTypeKaiaLast, TxTypeEthereumLast} \<Longrightarrow>
     GetTxGasForTxType p t = Inl (Errorf (''cannot find txGas for txType '' @ TxType_String t))"
  unfolding in_table [of p] GetTxGasForTxType_def
  by (simp add: map_of_eq_None_iff [symmetric])

lemma Get_base:
  "GetTxGasForTxType p TxTypeLegacyTransaction = Inr (TxGas p)"
  "GetTxGasForTxType p TxTypeValueTransfer = Inr (TxGasValueTransfer p)"
  "GetTxGasForTxType p TxTypeValueTransferMemo = Inr (TxGasValueTransfer p)"
  "GetTxGasForTxType p TxTypeAccountCreation = Inr (TxGasAccountCreation p)"
  "GetTxGasForTxType p TxTypeAccountUpdate = Inr (TxGasAccountUpdate p)"
  "GetTxGasForTxType p TxTypeSmartContractDeploy = Inr (TxGasContractCreation p)"
  "GetTxGasForTxType p TxTypeSmartContractExecution = Inr (TxGasContractExecution p)"
  "GetTxGasForTxType p TxTypeCancel = Inr (TxGasCancel p)"
  "GetTxGasForTxType p TxTypeChainDataAnchoring = Inr (TxChainDataAnchoringGas p)"
  "GetTxGasForTxType p TxTypeEthereumAccessList = Inr (TxGas p)"
  "GetTxGasForTxType p TxTypeEthereumDynamicFee = Inr (TxGas p)"
  "GetTxGasForTxType p TxTypeEthereumSetCode = Inr (TxGas p)"
  by (simp_all add: GetTxGasForTxType_def txTypeToGasMap_def TxType_defs)

lemma Get_delegated:
  assumes "base \<in> {TxTypeValueTransfer, TxTypeValueTransferMemo, TxTypeAccountUpdate,
             TxTypeSmartContractDeploy, TxTypeSmartContractExecution, TxTypeCancel,
             TxTypeChainDataAnchoring}"
  shows "\<exists>gas. GetTxGasForTxType p base = Inr gas
           \<and> GetTxGasForTxType p (base + 1) = Inr (gas + TxGasFeeDelegated p)
           \<and> GetTxGasForTxType p (base + 2) = Inr (gas + TxGasFeeDelegatedWithRatio p)"
  using assms by (auto simp add: GetTxGasForTxType_def txTypeToGasMap_def TxType_defs)

text \<open>
  C8, as stated, fails: the batch tag is declared in the enumeration and named by
  \<^verbatim>\<open>String()\<close>, the table has no entry for it, and the lookup fails.
\<close>

theorem GetTxGasForTxType_batch_counterexample:
  "TxTypeBatch \<in> set declared_TxTypes
   \<and> GetTxGasForTxType ref_params TxTypeBatch
        = Inl (Errorf ''cannot find txGas for txType TxTypeBatch'')"
  by (simp add: declared_TxTypes_def GetTxGasForTxType_def txTypeToGasMap_def TxType_String_def
      TxType_defs)

text \<open>
  C8, amended. \<^verbatim>\<open>GetTxGasForTxType\<close> succeeds for every declared tag other than the
  batch tag and the two end markers, and fails for every other tag with the message
  "cannot find txGas for txType" followed by the name of the tag; a base tag has the
  gas of its family, a fee-delegated tag that gas plus \<^verbatim>\<open>TxGasFeeDelegated\<close>, and a
  with-ratio tag that gas plus \<^verbatim>\<open>TxGasFeeDelegatedWithRatio\<close>.
\<close>

theorem GetTxGasForTxType_table:
  "(t \<in> set declared_TxTypes - {TxTypeBatch, TxTypeKaiaLast, TxTypeEthereumLast}
      \<longrightarrow> (\<exists>gas. GetTxGasForTxType p t = Inr gas))
   \<and> (t \<notin> set declared_TxTypes - {TxTypeBatch, TxTypeKaiaLast, TxTypeEthereumLast}
      \<longrightarrow> GetTxGasForTxType p t
            = Inl (Errorf (''cannot find txGas for txType '' @ TxType_String t)))
   \<and> GetTxGasForTxType p TxTypeLegacyTransaction = Inr (TxGas p)
   \<and> GetTxGasForTxType p TxTypeValueTransfer = Inr (TxGasValueTransfer p)
   \<and> GetTxGasForTxType p TxTypeValueTransferMemo = Inr (TxGasValueTransfer p)
   \<and> GetTxGasForTxType p TxTypeAccountCreation = Inr (TxGasAccountCreation p)
   \<and> GetTxGasForTxType p TxTypeAccountUpdate = Inr (TxGasAccountUpdate p)
   \<and> GetTxGasForTxType p TxTypeSmartContractDeploy = Inr (TxGasContractCreation p)
   \<and> GetTxGasForTxType p TxTypeSmartContractExecution = Inr (TxGasContractExecution p)
   \<and> GetTxGasForTxType p TxTypeCancel = Inr (TxGasCancel p)
   \<and> GetTxGasForTxType p TxTypeChainDataAnchoring = Inr (TxChainDataAnchoringGas p)
   \<and> GetTxGasForTxType p TxTypeEthereumAccessList = Inr (TxGas p)
   \<and> GetTxGasForTxType p TxTypeEthereumDynamicFee = Inr (TxGas p)
   \<and> GetTxGasForTxType p TxTypeEthereumSetCode = Inr (TxGas p)
   \<and> (\<forall>base \<in> {TxTypeValueTransfer, TxTypeValueTransferMemo, TxTypeAccountUpdate,
             TxTypeSmartContractDeploy, TxTypeSmartContractExecution, TxTypeCancel,
             TxTypeChainDataAnchoring}.
         \<exists>gas. GetTxGasForTxType p base = Inr gas
           \<and> GetTxGasForTxType p (base + 1) = Inr (gas + TxGasFeeDelegated p)
           \<and> GetTxGasForTxType p (base + 2) = Inr (gas + TxGasFeeDelegatedWithRatio p))"
  using Get_iff [of p t] Get_fail [of t p] Get_delegated [of _ p]
  by (simp only: Get_base simp_thms) blast

theorem GetTxGasForTxType_table_witness:
  "TxTypeFeeDelegatedCancel \<in> set declared_TxTypes - {TxTypeBatch, TxTypeKaiaLast, TxTypeEthereumLast}
   \<and> GetTxGasForTxType ref_params TxTypeFeeDelegatedCancel = Inr 31000
   \<and> (0x7803 :: TxType) \<notin> set declared_TxTypes - {TxTypeBatch, TxTypeKaiaLast, TxTypeEthereumLast}
   \<and> GetTxGasForTxType ref_params 0x7803
        = Inl (Errorf ''cannot find txGas for txType UndefinedTxType'')
   \<and> TxTypeCancel \<in> {TxTypeValueTransfer, TxTypeValueTransferMemo, TxTypeAccountUpdate,
             TxTypeSmartContractDeploy, TxTypeSmartContractExecution, TxTypeCancel,
             TxTypeChainDataAnchoring}
   \<and> GetTxGasForTxType ref_params TxTypeCancel = Inr 21000
   \<and> GetTxGasForTxType ref_params (TxTypeCancel + 1) = Inr (21000 + TxGasFeeDelegated ref_params)
   \<and> GetTxGasForTxType ref_params (TxTypeCancel + 2)
        = Inr (21000 + TxGasFeeDelegatedWithRatio ref_params)"
  using GetTxGasForTxType_table [of TxTypeFeeDelegatedCancel ref_params]
    GetTxGasForTxType_table [of "0x7803" ref_params]
  by (simp add: declared_TxTypes_def GetTxGasForTxType_def txTypeToGasMap_def TxType_String_def
      TxType_defs ref_params_def)

subsection \<open>The delegation validator\<close>

lemma validate7702_execution_unfold:
  assumes "txType \<in> {TxTypeSmartContractExecution, TxTypeFeeDelegatedSmartContractExecution,
                      TxTypeFeeDelegatedSmartContractExecutionWithRatio}"
  shows "validate7702 stateDB txType fromAddr toAddr =
        (case accounts stateDB toAddr of
           None \<Rightarrow> Some ErrToMustBeEOAWithCodeOrSCA
         | Some acc \<Rightarrow>
             if account_Type acc = SmartContractAccountType then None
             else (case as_EOA acc of
                     None \<Rightarrow> None
                   | Some eoa \<Rightarrow>
                       if GetCodeHash eoa \<noteq> emptyCodeHash then None
                       else Some ErrToMustBeEOAWithCodeOrSCA),
         stateDB)"
proof -
  from assms consider "txType = TxTypeSmartContractExecution"
    | "txType = TxTypeFeeDelegatedSmartContractExecution"
    | "txType = TxTypeFeeDelegatedSmartContractExecutionWithRatio"
    by blast
  then show ?thesis
    by cases (simp_all add: validate7702_def GetAccount_def TxType_defs split: option.splits)
qed

text \<open>
  C9, as stated, fails: a recipient that is a codeless legacy account is neither a
  contract account nor an externally owned account, the type assertion fails for it,
  and \<^verbatim>\<open>validate7702\<close> passes.
\<close>

theorem validate7702_legacy_recipient_counterexample:
  "accounts sample_stateDB 5 = Some (LegacyAccount emptyCodeHash)
   \<and> account_Type (LegacyAccount emptyCodeHash) \<noteq> SmartContractAccountType
   \<and> as_EOA (LegacyAccount emptyCodeHash) = None
   \<and> fst (validate7702 sample_stateDB TxTypeSmartContractExecution 9 5) = None"
  by (simp add: validate7702_def GetAccount_def sample_stateDB_def TxType_defs)

text \<open>
  C9, amended. For the three contract-execution types \<^verbatim>\<open>validate7702\<close> passes if and
  only if the recipient has an account that is a contract account, or is not an
  externally owned account at all, or is an externally owned account whose code hash
  is not the empty-code hash; a recipient without account and a codeless externally
  owned account fail with \<^verbatim>\<open>ErrToMustBeEOAWithCodeOrSCA\<close>, and no other error occurs.
  The state after the validation is the state before it.
\<close>

theorem validate7702_execution_recipient:
  assumes "txType \<in> {TxTypeSmartContractExecution, TxTypeFeeDelegatedSmartContractExecution,
                      TxTypeFeeDelegatedSmartContractExecutionWithRatio}"
  shows "(fst (validate7702 stateDB txType fromAddr toAddr) = None \<longleftrightarrow>
            (\<exists>acc. accounts stateDB toAddr = Some acc
               \<and> (account_Type acc = SmartContractAccountType
                    \<or> as_EOA acc = None
                    \<or> (\<exists>h. acc = ExternallyOwnedAccount h \<and> h \<noteq> emptyCodeHash))))
       \<and> (fst (validate7702 stateDB txType fromAddr toAddr) \<noteq> None \<longrightarrow>
            fst (validate7702 stateDB txType fromAddr toAddr) = Some ErrToMustBeEOAWithCodeOrSCA)
       \<and> (accounts stateDB toAddr = None \<longrightarrow>
            fst (validate7702 stateDB txType fromAddr toAddr) = Some ErrToMustBeEOAWithCodeOrSCA)
       \<and> (accounts stateDB toAddr = Some (ExternallyOwnedAccount emptyCodeHash) \<longrightarrow>
            fst (validate7702 stateDB txType fromAddr toAddr) = Some ErrToMustBeEOAWithCodeOrSCA)
       \<and> snd (validate7702 stateDB txType fromAddr toAddr) = stateDB"
proof (cases "accounts stateDB toAddr")
  case None
  then show ?thesis
    by (simp add: validate7702_execution_unfold [OF assms])
next
  case (Some acc)
  then show ?thesis
    by (cases acc) (auto simp add: validate7702_execution_unfold [OF assms])
qed

theorem validate7702_execution_recipient_witness:
  "TxTypeSmartContractExecution \<in> {TxTypeSmartContractExecution,
      TxTypeFeeDelegatedSmartContractExecution, TxTypeFeeDelegatedSmartContractExecutionWithRatio}
   \<and> validate7702 sample_stateDB TxTypeSmartContractExecution 9 1 = (None, sample_stateDB)
   \<and> validate7702 sample_stateDB TxTypeSmartContractExecution 9 2
        = (Some ErrToMustBeEOAWithCodeOrSCA, sample_stateDB)
   \<and> validate7702 sample_stateDB TxTypeSmartContractExecution 9 3 = (None, sample_stateDB)
   \<and> validate7702 sample_stateDB TxTypeSmartContractExecution 9 4
        = (Some ErrToMustBeEOAWithCodeOrSCA, sample_stateDB)
   \<and> validate7702 sample_stateDB TxTypeSmartContractExecution 9 5 = (None, sample_stateDB)
   \<and> accounts sample_stateDB 4 = None
   \<and> accounts sample_stateDB 2 = Some (ExternallyOwnedAccount emptyCodeHash)"
proof -
  have m: "TxTypeSmartContractExecution \<in> {TxTypeSmartContractExecution,
      TxTypeFeeDelegatedSmartContractExecution, TxTypeFeeDelegatedSmartContractExecutionWithRatio}"
    by simp
  have g1: "accounts sample_stateDB 1 = Some SmartContractAccount"
    and g2: "accounts sample_stateDB 2 = Some (ExternallyOwnedAccount emptyCodeHash)"
    and g3: "accounts sample_stateDB 3 = Some (ExternallyOwnedAccount [0xef, 0x01, 0x00])"
    and g4: "accounts sample_stateDB 4 = None"
    and g5: "accounts sample_stateDB 5 = Some (LegacyAccount emptyCodeHash)"
    by (simp_all add: sample_stateDB_def)
  have ne: "[0xef, 0x01, 0x00] \<noteq> emptyCodeHash"
    by (simp add: emptyCodeHash_def)
  have sca: "account_Type SmartContractAccount = SmartContractAccountType"
    by simp
  have leg: "as_EOA (LegacyAccount emptyCodeHash) = None"
    by simp
  have e1: "validate7702 sample_stateDB TxTypeSmartContractExecution 9 1 = (None, sample_stateDB)"
  proof (rule prod_eqI)
    note t = validate7702_execution_recipient [OF m, of sample_stateDB 9 1]
    have "fst (validate7702 sample_stateDB TxTypeSmartContractExecution 9 1) = None"
      using t g1 sca by blast
    then show "fst (validate7702 sample_stateDB TxTypeSmartContractExecution 9 1)
                 = fst (None, sample_stateDB)"
      by (simp only: fst_conv)
    have "snd (validate7702 sample_stateDB TxTypeSmartContractExecution 9 1) = sample_stateDB"
      using t by blast
    then show "snd (validate7702 sample_stateDB TxTypeSmartContractExecution 9 1)
                 = snd (None, sample_stateDB)"
      by (simp only: snd_conv)
  qed
  have e2: "validate7702 sample_stateDB TxTypeSmartContractExecution 9 2 = (Some ErrToMustBeEOAWithCodeOrSCA, sample_stateDB)"
  proof (rule prod_eqI)
    note t = validate7702_execution_recipient [OF m, of sample_stateDB 9 2]
    have "fst (validate7702 sample_stateDB TxTypeSmartContractExecution 9 2) = Some ErrToMustBeEOAWithCodeOrSCA"
      using t g2 by blast
    then show "fst (validate7702 sample_stateDB TxTypeSmartContractExecution 9 2)
                 = fst (Some ErrToMustBeEOAWithCodeOrSCA, sample_stateDB)"
      by (simp only: fst_conv)
    have "snd (validate7702 sample_stateDB TxTypeSmartContractExecution 9 2) = sample_stateDB"
      using t by blast
    then show "snd (validate7702 sample_stateDB TxTypeSmartContractExecution 9 2)
                 = snd (Some ErrToMustBeEOAWithCodeOrSCA, sample_stateDB)"
      by (simp only: snd_conv)
  qed
  have e3: "validate7702 sample_stateDB TxTypeSmartContractExecution 9 3 = (None, sample_stateDB)"
  proof (rule prod_eqI)
    note t = validate7702_execution_recipient [OF m, of sample_stateDB 9 3]
    have "fst (validate7702 sample_stateDB TxTypeSmartContractExecution 9 3) = None"
      using t g3 ne by blast
    then show "fst (validate7702 sample_stateDB TxTypeSmartContractExecution 9 3)
                 = fst (None, sample_stateDB)"
      by (simp only: fst_conv)
    have "snd (validate7702 sample_stateDB TxTypeSmartContractExecution 9 3) = sample_stateDB"
      using t by blast
    then show "snd (validate7702 sample_stateDB TxTypeSmartContractExecution 9 3)
                 = snd (None, sample_stateDB)"
      by (simp only: snd_conv)
  qed
  have e4: "validate7702 sample_stateDB TxTypeSmartContractExecution 9 4 = (Some ErrToMustBeEOAWithCodeOrSCA, sample_stateDB)"
  proof (rule prod_eqI)
    note t = validate7702_execution_recipient [OF m, of sample_stateDB 9 4]
    have "fst (validate7702 sample_stateDB TxTypeSmartContractExecution 9 4) = Some ErrToMustBeEOAWithCodeOrSCA"
      using t g4 by blast
    then show "fst (validate7702 sample_stateDB TxTypeSmartContractExecution 9 4)
                 = fst (Some ErrToMustBeEOAWithCodeOrSCA, sample_stateDB)"
      by (simp only: fst_conv)
    have "snd (validate7702 sample_stateDB TxTypeSmartContractExecution 9 4) = sample_stateDB"
      using t by blast
    then show "snd (validate7702 sample_stateDB TxTypeSmartContractExecution 9 4)
                 = snd (Some ErrToMustBeEOAWithCodeOrSCA, sample_stateDB)"
      by (simp only: snd_conv)
  qed
  have e5: "validate7702 sample_stateDB TxTypeSmartContractExecution 9 5 = (None, sample_stateDB)"
  proof (rule prod_eqI)
    note t = validate7702_execution_recipient [OF m, of sample_stateDB 9 5]
    have "fst (validate7702 sample_stateDB TxTypeSmartContractExecution 9 5) = None"
      using t g5 leg by blast
    then show "fst (validate7702 sample_stateDB TxTypeSmartContractExecution 9 5)
                 = fst (None, sample_stateDB)"
      by (simp only: fst_conv)
    have "snd (validate7702 sample_stateDB TxTypeSmartContractExecution 9 5) = sample_stateDB"
      using t by blast
    then show "snd (validate7702 sample_stateDB TxTypeSmartContractExecution 9 5)
                 = snd (None, sample_stateDB)"
      by (simp only: snd_conv)
  qed
  from m e1 e2 e3 e4 e5 g4 g2 show ?thesis
    by (intro conjI)
qed

end
